theory Spec2Isabelle
  imports Complex_Main
begin

section \<open>Conventions of the embedding\<close>

text \<open>
  The Python sources compute with \<open>float\<close>; the embedding computes with \<open>real\<close>, so every
  statement below is about the exact arithmetic the code approximates.

  A naive \<open>datetime\<close> is the number of microseconds between 1970-01-01T00:00:00 and the
  wall-clock reading; a \<open>timedelta\<close> is a number of microseconds. Every call of
  \<open>datetime.now()\<close> is an explicit argument of the function that makes it.

  A dictionary of type \<open>Dict[str, Any]\<close> that the code reads with \<open>.get(key, default)\<close>
  is a record of optional fields (\<open>None\<close>: key absent); a value that is present has the type the
  code expects of it.
\<close>

type_synonym datetime = int
type_synonym timedelta = int

definition hour :: "datetime \<Rightarrow> int" where
  "hour t = (t div 3600000000) mod 24"

definition weekday :: "datetime \<Rightarrow> int" where
  \<comment> \<open>0 is Monday; 1970-01-01 was a Thursday.\<close>
  "weekday t = (t div 86400000000 + 3) mod 7"

definition total_seconds :: "timedelta \<Rightarrow> real" where
  "total_seconds d = real_of_int d / 1000000"

definition minutes :: "int \<Rightarrow> timedelta" where
  "minutes m = m * 60000000"

datatype py_error = ValueError | TypeError | ZeroDivisionError | ProviderError

datatype iso_string = BadIso | Iso datetime "timedelta option"

text \<open>
  A timestamp string is represented by what \<open>datetime.fromisoformat\<close> makes of it (after
  \<open>'Z'\<close> is replaced by \<open>'+00:00'\<close>): \<open>BadIso\<close> is a string it rejects with
  \<open>ValueError\<close>, \<open>Iso l off\<close> one it parses to the wall-clock reading \<open>l\<close> with UTC offset
  \<open>off\<close> (\<open>None\<close> for a naive datetime).
\<close>

fun fromisoformat :: "iso_string \<Rightarrow> py_error + datetime \<times> timedelta option" where
  "fromisoformat BadIso = Inl ValueError"
| "fromisoformat (Iso l off) = Inr (l, off)"

fun dt_minus :: "datetime \<times> timedelta option \<Rightarrow> datetime \<times> timedelta option \<Rightarrow> py_error + timedelta" where
  \<comment> \<open>\<open>a - b\<close> on datetimes: naive and aware ones do not mix.\<close>
  "dt_minus (l1, None) (l2, None) = Inr (l1 - l2)"
| "dt_minus (l1, Some o1) (l2, Some o2) = Inr ((l1 - o1) - (l2 - o2))"
| "dt_minus (l1, None) (l2, Some o2) = Inl TypeError"
| "dt_minus (l1, Some o1) (l2, None) = Inl TypeError"

fun dt_greater :: "datetime \<times> timedelta option \<Rightarrow> datetime \<times> timedelta option \<Rightarrow> py_error + bool" where
  \<comment> \<open>\<open>a > b\<close> on datetimes.\<close>
  "dt_greater (l1, None) (l2, None) = Inr (l1 > l2)"
| "dt_greater (l1, Some o1) (l2, Some o2) = Inr (l1 - o1 > l2 - o2)"
| "dt_greater (l1, None) (l2, Some o2) = Inl TypeError"
| "dt_greater (l1, Some o1) (l2, None) = Inl TypeError"

definition get_default :: "'a option \<Rightarrow> 'a \<Rightarrow> 'a" where
  \<comment> \<open>\<open>d.get(key, default)\<close> on an optional field.\<close>
  "get_default v dflt = (case v of None \<Rightarrow> dflt | Some x \<Rightarrow> x)"

definition dict_get :: "(string \<times> 'a) list \<Rightarrow> string \<Rightarrow> 'a \<Rightarrow> 'a" where
  \<comment> \<open>\<open>d.get(key, default)\<close> on a dictionary kept in insertion order.\<close>
  "dict_get d k dflt = (case map_of d k of None \<Rightarrow> dflt | Some x \<Rightarrow> x)"

definition np_mean :: "real list \<Rightarrow> real" where
  "np_mean xs = sum_list xs / real (length xs)"

definition np_std :: "real list \<Rightarrow> real" where
  \<comment> \<open>numpy's population standard deviation.\<close>
  "np_std xs = sqrt (np_mean (map (\<lambda>x. (x - np_mean xs)\<^sup>2) xs))"

definition py_fmod :: "real \<Rightarrow> real \<Rightarrow> real" where
  \<comment> \<open>Python's \<open>x % m\<close> on floats, for positive \<open>m\<close>.\<close>
  "py_fmod x m = x - m * of_int \<lfloor>x / m\<rfloor>"

definition last_n :: "nat \<Rightarrow> 'a list \<Rightarrow> 'a list" where
  \<comment> \<open>the slice \<open>xs[-n:]\<close>, for positive \<open>n\<close>.\<close>
  "last_n n xs = drop (length xs - n) xs"

definition deque_append :: "nat \<Rightarrow> 'a list \<Rightarrow> 'a \<Rightarrow> 'a list" where
  \<comment> \<open>\<open>append\<close> on a \<open>deque(maxlen=n)\<close>: a full deque drops from the left.\<close>
  "deque_append maxlen q x = drop (length q + 1 - maxlen) (q @ [x])"

fun startswith :: "string \<Rightarrow> string \<Rightarrow> bool" where
  "startswith s [] = True"
| "startswith [] (p # ps) = False"
| "startswith (c # cs) (p # ps) = (c = p \<and> startswith cs ps)"

fun str_contains :: "string \<Rightarrow> string \<Rightarrow> bool" where
  \<comment> \<open>\<open>sub in s\<close> on strings.\<close>
  "str_contains [] sub = (sub = [])"
| "str_contains (c # cs) sub = (startswith (c # cs) sub \<or> str_contains cs sub)"

definition lower_char :: "char \<Rightarrow> char" where
  "lower_char c =
     (case map_of (zip ''ABCDEFGHIJKLMNOPQRSTUVWXYZ'' ''abcdefghijklmnopqrstuvwxyz'') c of
        None \<Rightarrow> c
      | Some d \<Rightarrow> d)"

definition lower :: "string \<Rightarrow> string" where
  \<comment> \<open>\<open>str.lower()\<close> on ASCII text.\<close>
  "lower s = map lower_char s"

section \<open>Real-time risk engine (models/realtime_risk_engine.py)\<close>

record expense_data =
  ed_user_id :: "string option"
  ed_group_id :: "string option"
  ed_amount :: "real option"
  ed_category :: "string option"
  ed_location :: "string option"
  ed_description :: "string option"
  ed_payment_method :: "string option"
  ed_timestamp :: "iso_string option"

record RiskEvent =
  re_timestamp :: datetime
  re_user_id :: string
  re_group_id :: string
  re_risk_score :: real
  re_details :: expense_data
  re_scores :: "(string \<times> real) list"

text \<open>
  \<open>re_details\<close> is the copy of the expense data and \<open>re_scores\<close> the risk scores that
  \<open>details.update(risk_scores)\<close> merges into it; the keys of the two never meet.
\<close>

record engine =
  monitoring_window :: timedelta
  recent_events :: "RiskEvent list"
  user_velocities :: "string \<Rightarrow> (datetime \<times> real) list"
  group_activities :: "string \<Rightarrow> (datetime \<times> expense_data) list"

definition risk_thresholds :: "(string \<times> real) list" where
  "risk_thresholds =
     [(''high_velocity'', 0.8), (''suspicious_pattern'', 0.7),
      (''anomaly_detection'', 0.6), (''group_coordination'', 0.75)]"

definition round_amounts :: "real list" where
  "round_amounts = [100, 250, 500, 1000, 2000, 5000]"

definition common_fraud_categories :: "string list" where
  "common_fraud_categories = [''cash_advance'', ''gift_cards'', ''cryptocurrency'', ''gambling'']"

definition high_risk_locations :: "string list" where
  "high_risk_locations = [''atm'', ''casino'', ''pawn_shop'', ''gas_station'']"

definition init_engine :: "int \<Rightarrow> engine" where
  "init_engine monitoring_window_minutes =
     \<lparr>monitoring_window = minutes monitoring_window_minutes, recent_events = [],
      user_velocities = (\<lambda>_. []), group_activities = (\<lambda>_. [])\<rparr>"

definition analyze_velocity :: "engine \<Rightarrow> string \<Rightarrow> real \<Rightarrow> datetime \<Rightarrow> real \<times> engine" where
  "analyze_velocity eng user_id amount current_time =
     (let appended = deque_append 100 (user_velocities eng user_id) (current_time, amount);
          cutoff_time = current_time - monitoring_window eng;
          user_transactions = dropWhile (\<lambda>(t, _). t < cutoff_time) appended;
          eng' = eng\<lparr>user_velocities := (user_velocities eng)(user_id := user_transactions)\<rparr>
      in (if length user_transactions < 2 then 0.1
          else let recent_count = length user_transactions;
                   total_amount = sum_list (map snd user_transactions);
                   time_span = total_seconds (current_time - fst (hd user_transactions)) / 3600
               in if time_span = 0 then 0.9
                  else let frequency_risk = min 1 (real recent_count / 20);
                           amount_velocity_risk = min 1 (total_amount / (time_span * 1000))
                       in (frequency_risk + amount_velocity_risk) / 2,
          eng'))"

definition suspicious_words :: "string list" where
  "suspicious_words =
     [''cash'', ''advance'', ''atm'', ''withdrawal'', ''transfer'', ''urgent'', ''emergency'']"

definition analyze_patterns :: "expense_data \<Rightarrow> real" where
  "analyze_patterns ed =
     (let amount = get_default (ed_amount ed) 0;
          category = lower (get_default (ed_category ed) '''');
          location = lower (get_default (ed_location ed) '''');
          description = lower (get_default (ed_description ed) '''');
          s1 = (if amount \<in> set round_amounts then 0.3 else 0);
          s2 = s1 + (if list_ex (str_contains category) common_fraud_categories then 0.4 else 0);
          s3 = s2 + (if list_ex (str_contains location) high_risk_locations then 0.3 else 0);
          risk_score = s3 + (if list_ex (str_contains description) suspicious_words then 0.2 else 0);
          factors = (4::nat)
      in min 1 (risk_score / real (max 1 factors)))"

definition analyze_group_coordination ::
  "engine \<Rightarrow> string \<Rightarrow> expense_data \<Rightarrow> datetime \<Rightarrow> real \<times> engine" where
  "analyze_group_coordination eng group_id ed current_time =
     (let appended = deque_append 200 (group_activities eng group_id) (current_time, ed);
          cutoff_time = current_time - monitoring_window eng;
          recent_activities = dropWhile (\<lambda>(t, _). t < cutoff_time) appended;
          eng' = eng\<lparr>group_activities := (group_activities eng)(group_id := recent_activities)\<rparr>;
          amounts = map (\<lambda>(_, d). get_default (ed_amount d) 0) (last_n 5 recent_activities);
          categories = map (\<lambda>(_, d). get_default (ed_category d) '''') (last_n 5 recent_activities);
          times = map fst (last_n 10 recent_activities)
      in (if length recent_activities < 2 then 0.1
          else if length (remdups amounts) = 1 \<and> length amounts > 1 then 0.8
          else if length (remdups categories) = 1 \<and> length categories > 2 then 0.6
          else if length times > 3
                  \<and> list_all (\<lambda>(a, b). total_seconds (b - a) < 300) (zip times (tl times))
               then 0.7
          else 0.2,
          eng'))"

definition detect_anomalies :: "engine \<Rightarrow> string \<Rightarrow> expense_data \<Rightarrow> real" where
  "detect_anomalies eng user_id ed =
     (let amount = get_default (ed_amount ed) 0;
          category = get_default (ed_category ed) '''';
          user_transactions =
            last_n 20 (map re_details (filter (\<lambda>e. re_user_id e = user_id) (recent_events eng)))
      in if user_transactions = [] then 0.3
         else let amounts = map (\<lambda>t. get_default (ed_amount t) 0) user_transactions;
                  avg_amount = np_mean amounts;
                  std0 = (if length amounts > 1 then np_std amounts else avg_amount * 0.5);
                  std_amount = (if std0 = 0 then avg_amount * 0.1 else std0);
                  z_score = (if std_amount > 0 then \<bar>amount - avg_amount\<bar> / std_amount else 0);
                  amount_anomaly = min 1 (z_score / 3);
                  categories = map (\<lambda>t. get_default (ed_category t) '''') user_transactions;
                  category_frequency =
                    (if categories \<noteq> [] then real (count_list categories category) / real (length categories)
                     else 0);
                  category_anomaly = 1 - category_frequency
              in (amount_anomaly + category_anomaly) / 2)"

definition leisure_words :: "string list" where
  "leisure_words = [''entertainment'', ''shopping'', ''dining'']"

definition analyze_temporal_patterns :: "expense_data \<Rightarrow> datetime \<Rightarrow> real" where
  "analyze_temporal_patterns ed current_time =
     (let h = hour current_time;
          day_of_week = weekday current_time;
          r1 = (if h \<ge> 23 \<or> h \<le> 5 then 0.4 else 0);
          r2 = r1 + (if 9 \<le> h \<and> h \<le> 17 \<and> day_of_week < 5
                        \<and> list_ex (str_contains (lower (get_default (ed_category ed) ''''))) leisure_words
                     then 0.2 else 0);
          risk_score = r2 + (if day_of_week \<ge> 5 \<and> get_default (ed_amount ed) 0 > 1000 then 0.3 else 0)
      in min 1 risk_score)"

definition suspicious_thresholds :: "real list" where
  "suspicious_thresholds = [999, 1999, 2999, 4999, 9999]"

definition analyze_amount_suspicion :: "real \<Rightarrow> real" where
  "analyze_amount_suspicion amount =
     (if py_fmod amount 100 = 0 \<and> amount \<ge> 100 then 0.3
      else if list_ex (\<lambda>threshold. threshold - 50 \<le> amount \<and> amount \<le> threshold) suspicious_thresholds
           then 0.5
      else if amount > 10000 then 0.6
      else if amount > 5000 then 0.4
      else if amount \<le> 1 then 0.3
      else 0.1)"

definition store_event :: "engine \<Rightarrow> RiskEvent \<Rightarrow> engine" where
  "store_event eng event = eng\<lparr>recent_events := deque_append 10000 (recent_events eng) event\<rparr>"

record alert_candidate =
  al_type :: string
  al_severity :: string
  al_score :: real
  al_expense_amount :: real
  al_user_id :: string

text \<open>
  The alert's \<open>message\<close> (formatted text) and \<open>timestamp\<close> (a later reading of the clock) are
  not part of the model.
\<close>

definition generate_alerts :: "(string \<times> real) list \<Rightarrow> expense_data \<Rightarrow> alert_candidate list" where
  "generate_alerts risk_scores ed =
     map (\<lambda>(risk_type, score).
            \<lparr>al_type = risk_type,
             al_severity = (if score \<ge> 0.8 then ''HIGH'' else ''MEDIUM''),
             al_score = score,
             al_expense_amount = get_default (ed_amount ed) 0,
             al_user_id = get_default (ed_user_id ed) ''unknown''\<rparr>)
         (filter (\<lambda>(risk_type, score). score \<ge> dict_get risk_thresholds risk_type 0.6) risk_scores)"

definition categorize_risk :: "real \<Rightarrow> string" where
  "categorize_risk overall_risk =
     (if overall_risk \<ge> 0.8 then ''CRITICAL''
      else if overall_risk \<ge> 0.6 then ''HIGH''
      else if overall_risk \<ge> 0.4 then ''MEDIUM''
      else if overall_risk \<ge> 0.2 then ''LOW''
      else ''MINIMAL'')"

record risk_analysis =
  ra_risk_scores :: "(string \<times> real) list"
  ra_alerts :: "alert_candidate list"
  ra_risk_level :: string

text \<open>
  Of the returned dictionary the model keeps \<open>risk_scores\<close>, \<open>alerts\<close> and \<open>risk_level\<close>;
  \<open>recommendations\<close> and \<open>monitoring_insights\<close> are texts and counts derived from the same
  scores and from a further reading of the clock.
\<close>

definition signal_scores :: "engine \<Rightarrow> expense_data \<Rightarrow> datetime \<Rightarrow> (string \<times> real) list \<times> engine" where
  \<comment> \<open>the six signals, in the order \<open>analyze_real_time_risk\<close> computes them.\<close>
  "signal_scores eng ed current_time =
     (let user_id = get_default (ed_user_id ed) ''unknown'';
          group_id = get_default (ed_group_id ed) ''unknown'';
          amount = get_default (ed_amount ed) 0;
          (velocity, eng1) = analyze_velocity eng user_id amount current_time;
          pattern = analyze_patterns ed;
          (coordination, eng2) = analyze_group_coordination eng1 group_id ed current_time;
          anomaly = detect_anomalies eng2 user_id ed;
          temporal = analyze_temporal_patterns ed current_time;
          amount_s = analyze_amount_suspicion amount
      in ([(''velocity_risk'', velocity), (''pattern_risk'', pattern),
           (''coordination_risk'', coordination), (''anomaly_risk'', anomaly),
           (''temporal_risk'', temporal), (''amount_suspicion'', amount_s)], eng2))"

definition analyze_real_time_risk :: "engine \<Rightarrow> expense_data \<Rightarrow> datetime \<Rightarrow> risk_analysis \<times> engine" where
  "analyze_real_time_risk eng ed current_time =
     (let (six, eng2) = signal_scores eng ed current_time;
          overall_risk = np_mean (map snd six);
          risk_scores = six @ [(''overall_realtime_risk'', overall_risk)];
          risk_event =
            \<lparr>re_timestamp = current_time,
             re_user_id = get_default (ed_user_id ed) ''unknown'',
             re_group_id = get_default (ed_group_id ed) ''unknown'',
             re_risk_score = overall_risk, re_details = ed, re_scores = risk_scores\<rparr>;
          eng3 = store_event eng2 risk_event
      in (\<lparr>ra_risk_scores = risk_scores,
           ra_alerts = generate_alerts risk_scores ed,
           ra_risk_level = categorize_risk overall_risk\<rparr>, eng3))"

section \<open>Request schema (schemas.py)\<close>

record ParticipantInfo =
  p_user_id :: string
  p_amount :: real

record ExpenseIn =
  e_expense_id :: string
  e_group_id :: string
  e_payer_id :: string
  e_participants :: "ParticipantInfo list"
  e_amount :: real
  e_currency :: string
  e_merchant :: "string option"
  e_category :: "string option"
  e_timestamp :: iso_string

text \<open>
  The optional \<open>itemized\<close> breakdown is read by none of the functions below and is left out.
\<close>

datatype field_value =
  Str string | Num real | Parts "ParticipantInfo list" | OptStr "string option" | Time iso_string

definition isupper :: "string \<Rightarrow> bool" where
  \<comment> \<open>\<open>str.isupper()\<close> on ASCII text: some cased character, and no lowercase one.\<close>
  "isupper v = (list_ex (\<lambda>c. c \<in> set ''ABCDEFGHIJKLMNOPQRSTUVWXYZ'') v
                \<and> list_all (\<lambda>c. c \<notin> set ''abcdefghijklmnopqrstuvwxyz'') v)"

definition validate_currency :: "string \<Rightarrow> py_error + string" where
  "validate_currency v = (if \<not> isupper v then Inl ValueError else Inr v)"

definition validate_timestamp :: "iso_string \<Rightarrow> py_error + iso_string" where
  "validate_timestamp v = (case fromisoformat v of Inl _ \<Rightarrow> Inl ValueError | Inr _ \<Rightarrow> Inr v)"

definition validate_participants_amount ::
  "ParticipantInfo list \<Rightarrow> (string \<rightharpoonup> field_value) \<Rightarrow> py_error + ParticipantInfo list" where
  "validate_participants_amount v values =
     (case values ''amount'' of
        None \<Rightarrow> Inr v
      | Some (Num total_amount) \<Rightarrow>
          (let total_participant_amount = sum_list (map p_amount v)
           in if \<bar>total_participant_amount - total_amount\<bar> > 0.01 then Inl ValueError else Inr v)
      | Some _ \<Rightarrow> Inl TypeError)"

text \<open>
  Building an \<open>ExpenseIn\<close>: pydantic validates the fields in the order the class declares them.
  Each field passes its \<open>Field\<close> constraints and then its validator, which receives as
  \<open>values\<close> the fields validated before it; a field that fails is reported and left out of
  \<open>values\<close>. The result is the list of the failing fields, or the object.
\<close>

definition ExpenseIn_validate :: "ExpenseIn \<Rightarrow> string list + ExpenseIn" where
  "ExpenseIn_validate raw =
     (let values3 = [''expense_id'' \<mapsto> Str (e_expense_id raw), ''group_id'' \<mapsto> Str (e_group_id raw),
                     ''payer_id'' \<mapsto> Str (e_payer_id raw)];
          r_participants =
            (if e_participants raw \<noteq> [] \<and> list_all (\<lambda>p. 0 < p_amount p) (e_participants raw)
             then validate_participants_amount (e_participants raw) values3 else Inl ValueError);
          values4 = (case r_participants of Inl _ \<Rightarrow> values3 | Inr v \<Rightarrow> values3(''participants'' \<mapsto> Parts v));
          r_amount = (if 0 < e_amount raw \<and> e_amount raw \<le> 1000000 then Inr (e_amount raw) else Inl ValueError);
          values5 = (case r_amount of Inl _ \<Rightarrow> values4 | Inr v \<Rightarrow> values4(''amount'' \<mapsto> Num v));
          r_currency = (if length (e_currency raw) = 3 then validate_currency (e_currency raw) else Inl ValueError);
          r_timestamp = validate_timestamp (e_timestamp raw);
          errors = (if isl r_participants then [''participants''] else [])
                   @ (if isl r_amount then [''amount''] else [])
                   @ (if isl r_currency then [''currency''] else [])
                   @ (if isl r_timestamp then [''timestamp''] else [])
      in if errors = [] then Inr raw else Inl errors)"

record RuleViolation =
  rule_name :: string
  severity :: string
  confidence :: real

text \<open>The violation's \<open>message\<close>, a formatted text, is not part of the model.\<close>

definition new_RuleViolation :: "string \<Rightarrow> string \<Rightarrow> real \<Rightarrow> py_error + RuleViolation" where
  \<comment> \<open>\<open>RuleViolation(...)\<close>: the schema rejects a confidence outside \<open>[0, 1]\<close>. The rules
      below that pass a constant confidence build the record directly.\<close>
  "new_RuleViolation name sev conf =
     (if 0 \<le> conf \<and> conf \<le> 1 then Inr \<lparr>rule_name = name, severity = sev, confidence = conf\<rparr>
      else Inl ValueError)"

section \<open>Rule engine (models/rule_engine.py)\<close>

record RuleEngine =
  amount_multiplier_threshold :: real
  rapid_expense_minutes :: int
  max_participants_threshold :: nat
  suspicious_merchants :: "string list"
  suspicious_categories :: "string list"

definition default_RuleEngine :: RuleEngine where
  \<comment> \<open>the thresholds when the environment sets none.\<close>
  "default_RuleEngine =
     \<lparr>amount_multiplier_threshold = 5, rapid_expense_minutes = 15, max_participants_threshold = 20,
      suspicious_merchants = [''''], suspicious_categories = [''gambling'', ''adult'']\<rparr>"

record historical_expense =
  h_payer_id :: "string option"
  h_timestamp :: "iso_string option"

definition check_excessive_amount :: "RuleEngine \<Rightarrow> (string \<rightharpoonup> real) \<Rightarrow> py_error + RuleViolation list" where
  \<comment> \<open>the division raises for a threshold of 0, and the violation's constructor for a
      confidence outside \<open>[0, 1]\<close>.\<close>
  "check_excessive_amount eng features =
     (let amount_vs_group = get_default (features ''amount_vs_group_mean'') 1
      in if amount_vs_group > amount_multiplier_threshold eng
         then (let severity = (if amount_vs_group > amount_multiplier_threshold eng * 2 then ''high'' else ''medium'')
               in if amount_multiplier_threshold eng * 2 = 0 then Inl ZeroDivisionError
                  else (case new_RuleViolation ''excessive_amount'' severity
                               (min 0.9 (amount_vs_group / (amount_multiplier_threshold eng * 2))) of
                          Inl e \<Rightarrow> Inl e
                        | Inr v \<Rightarrow> Inr [v]))
         else Inr [])"

definition check_participant_mismatch :: "ExpenseIn \<Rightarrow> RuleViolation list" where
  "check_participant_mismatch expense =
     (let participant_total = sum_list (map p_amount (e_participants expense));
          participant_ids = map p_user_id (e_participants expense)
      in (if \<bar>participant_total - e_amount expense\<bar> > 0.01
          then [\<lparr>rule_name = ''amount_mismatch'', severity = ''high'', confidence = 0.95\<rparr>] else [])
         @ (if length participant_ids \<noteq> length (remdups participant_ids)
            then [\<lparr>rule_name = ''duplicate_participants'', severity = ''medium'', confidence = 0.9\<rparr>] else []))"

definition check_blacklisted_entities :: "RuleEngine \<Rightarrow> ExpenseIn \<Rightarrow> RuleViolation list" where
  "check_blacklisted_entities eng expense =
     (case e_merchant expense of
        None \<Rightarrow> []
      | Some m \<Rightarrow> if m \<noteq> '''' \<and> lower m \<in> set (suspicious_merchants eng)
                  then [\<lparr>rule_name = ''blacklisted_merchant'', severity = ''high'', confidence = 0.95\<rparr>] else [])
     @ (case e_category expense of
          None \<Rightarrow> []
        | Some c \<Rightarrow> if c \<noteq> '''' \<and> lower c \<in> set (suspicious_categories eng)
                    then [\<lparr>rule_name = ''suspicious_category'', severity = ''medium'', confidence = 0.8\<rparr>] else [])"

fun count_rapid ::
  "string \<Rightarrow> datetime \<times> timedelta option \<Rightarrow> timedelta \<Rightarrow> historical_expense list \<Rightarrow> py_error + nat" where
  "count_rapid payer expense_time rapid_threshold [] = Inr 0"
| "count_rapid payer expense_time rapid_threshold (hist # rest) =
     (case (if h_payer_id hist = Some payer then h_timestamp hist else None) of
        None \<Rightarrow> count_rapid payer expense_time rapid_threshold rest
      | Some ts \<Rightarrow>
          (case fromisoformat ts of
             Inl e \<Rightarrow> Inl e
           | Inr hist_time \<Rightarrow>
               (case dt_minus expense_time hist_time of
                  Inl e \<Rightarrow> Inl e
                | Inr d \<Rightarrow>
                    (case count_rapid payer expense_time rapid_threshold rest of
                       Inl e \<Rightarrow> Inl e
                     | Inr n \<Rightarrow> Inr (if d < rapid_threshold then n + 1 else n)))))"

definition check_rapid_expenses :: "RuleEngine \<Rightarrow> ExpenseIn \<Rightarrow> historical_expense list \<Rightarrow> RuleViolation list" where
  \<comment> \<open>any exception inside is caught, and no violation has been appended by then.\<close>
  "check_rapid_expenses eng expense historical_data =
     (case fromisoformat (e_timestamp expense) of
        Inl _ \<Rightarrow> []
      | Inr expense_time \<Rightarrow>
          (case count_rapid (e_payer_id expense) expense_time (minutes (rapid_expense_minutes eng)) historical_data of
             Inl _ \<Rightarrow> []
           | Inr rapid_count \<Rightarrow>
               if rapid_count \<ge> 3
               then [\<lparr>rule_name = ''rapid_expenses'', severity = ''high'', confidence = 0.8\<rparr>]
               else if rapid_count \<ge> 2
               then [\<lparr>rule_name = ''rapid_expenses'', severity = ''medium'', confidence = 0.6\<rparr>]
               else []))"

definition check_time_patterns :: "ExpenseIn \<Rightarrow> datetime \<Rightarrow> RuleViolation list" where
  \<comment> \<open>\<open>utcnow\<close> is the naive reading of \<open>datetime.utcnow()\<close>; an exception in the comparison
      is caught after the first violation has been appended.\<close>
  "check_time_patterns expense utcnow =
     (case fromisoformat (e_timestamp expense) of
        Inl _ \<Rightarrow> []
      | Inr expense_time \<Rightarrow>
          (let h = hour (fst expense_time);
               unusual = (if 2 \<le> h \<and> h \<le> 5
                          then [\<lparr>rule_name = ''unusual_time'', severity = ''low'', confidence = 0.4\<rparr>] else [])
           in case dt_greater expense_time (utcnow + minutes 60, None) of
                Inl _ \<Rightarrow> unusual
              | Inr future \<Rightarrow>
                  unusual @ (if future
                             then [\<lparr>rule_name = ''future_timestamp'', severity = ''high'', confidence = 0.9\<rparr>]
                             else [])))"

definition check_participant_count :: "RuleEngine \<Rightarrow> ExpenseIn \<Rightarrow> RuleViolation list" where
  "check_participant_count eng expense =
     (let participant_count = length (e_participants expense)
      in if participant_count > max_participants_threshold eng
         then [\<lparr>rule_name = ''excessive_participants'', severity = ''medium'', confidence = 0.7\<rparr>] else [])"

definition check_payer_participation :: "ExpenseIn \<Rightarrow> RuleViolation list" where
  "check_payer_participation expense =
     (let payer_participating = list_ex (\<lambda>p. p_user_id p = e_payer_id expense) (e_participants expense)
      in if \<not> payer_participating
         then [\<lparr>rule_name = ''payer_not_participating'', severity = ''medium'', confidence = 0.6\<rparr>] else [])"

definition check_amount_precision :: "(real \<Rightarrow> nat) \<Rightarrow> ExpenseIn \<Rightarrow> RuleViolation list" where
  \<comment> \<open>\<open>str_decimals x\<close> is the number of characters after the point in \<open>str(x)\<close>, and 0 when
      \<open>str(x)\<close> has no point: the float's printed form is an input of the model.\<close>
  "check_amount_precision str_decimals expense =
     (if e_amount expense = of_int \<lfloor>e_amount expense\<rfloor> \<and> e_amount expense \<ge> 100
      then [\<lparr>rule_name = ''round_amount'', severity = ''low'', confidence = 0.3\<rparr>] else [])
     @ (if str_decimals (e_amount expense) > 2
        then [\<lparr>rule_name = ''precise_amount'', severity = ''low'', confidence = 0.25\<rparr>] else [])"

definition check_rules ::
  "RuleEngine \<Rightarrow> (real \<Rightarrow> nat) \<Rightarrow> datetime \<Rightarrow> ExpenseIn \<Rightarrow> (string \<rightharpoonup> real)
     \<Rightarrow> historical_expense list \<Rightarrow> RuleViolation list" where
  \<comment> \<open>The catch-all handler of the source returns \<open>[]\<close>. Only the first rule can raise past
      its own code; the rules on past expenses and on time catch their exceptions themselves.\<close>
  "check_rules eng str_decimals utcnow expense derived_features historical_data =
     (case check_excessive_amount eng derived_features of
        Inl _ \<Rightarrow> []
      | Inr excessive \<Rightarrow>
          excessive
          @ check_participant_mismatch expense
          @ check_blacklisted_entities eng expense
          @ (if historical_data \<noteq> [] then check_rapid_expenses eng expense historical_data else [])
          @ check_time_patterns expense utcnow
          @ check_participant_count eng expense
          @ check_payer_participation expense
          @ check_amount_precision str_decimals expense)"

section \<open>Ensemble model (fraud_detection/models/ensemble.py)\<close>

record ml_model =
  is_fitted :: bool
  predict_proba :: "real list \<Rightarrow> py_error + real list"
  explain_prediction :: "real list \<Rightarrow> py_error + (string \<times> real) list"
  version :: string

text \<open>
  The anomaly model is an external provider: each of its two calls either returns or raises
  (\<open>Inl\<close>).
\<close>

record EnsembleModel =
  the_ml_model :: "ml_model option"
  rule_engine :: RuleEngine
  ml_weight :: real
  rule_weight :: real
  suspicion_threshold :: real

definition default_EnsembleModel :: "ml_model option \<Rightarrow> RuleEngine \<Rightarrow> EnsembleModel" where
  "default_EnsembleModel m eng =
     \<lparr>the_ml_model = m, rule_engine = eng, ml_weight = 0.7, rule_weight = 0.3, suspicion_threshold = 0.6\<rparr>"

definition severity_weights :: "(string \<times> real) list" where
  "severity_weights = [(''low'', 0.3), (''medium'', 0.6), (''high'', 0.9)]"

record FeatureContribution =
  feature_name :: string
  contribution :: real

text \<open>The contribution's \<open>value\<close> (a feature value or a violation's message) is not part of the model.\<close>

datatype pyval =
  PFloat real | PBool bool | PStr string
  | PViolations "RuleViolation list" | PExplanation "FeatureContribution list"

definition calculate_rule_score :: "RuleViolation list \<Rightarrow> real" where
  "calculate_rule_score violations =
     (if violations = [] then 0
      else let total_score = sum_list (map (\<lambda>v. dict_get severity_weights (severity v) 0.5 * confidence v) violations);
               max_possible_score = sum_list (map (\<lambda>v. dict_get severity_weights (severity v) 0.5) violations)
           in if max_possible_score > 0 then min 1 (total_score / max_possible_score) else 0)"

definition combine_scores :: "EnsembleModel \<Rightarrow> real \<Rightarrow> real \<Rightarrow> real" where
  "combine_scores ens ml_score rule_score =
     (let combined = (ml_weight ens * ml_score) + (rule_weight ens * rule_score)
      in if ml_score > 0.5 \<and> rule_score > 0.5
         then (let boost_factor = 1.1 in min 1 (combined * boost_factor))
         else combined)"

definition create_explanation ::
  "EnsembleModel \<Rightarrow> (string \<times> real) list \<Rightarrow> RuleViolation list \<Rightarrow> FeatureContribution list" where
  "create_explanation ens ml_explanation violations =
     (let from_ml = map (\<lambda>(name, c). \<lparr>feature_name = name, contribution = c\<rparr>) (take 5 ml_explanation);
          from_rules =
            map (\<lambda>v. \<lparr>feature_name = ''rule_'' @ rule_name v,
                       contribution = dict_get severity_weights (severity v) 0.5 * confidence v * rule_weight ens\<rparr>)
                violations
      in take 10 (sort_key (\<lambda>x. - \<bar>contribution x\<bar>) (from_ml @ from_rules)))"

definition ml_predict :: "EnsembleModel \<Rightarrow> real list \<Rightarrow> py_error + real \<times> (string \<times> real) list" where
  \<comment> \<open>the first block of \<open>predict_single\<close>: the model's score and explanation, or the
      exception one of its calls raises.\<close>
  "ml_predict ens feature_vector =
     (case the_ml_model ens of
        None \<Rightarrow> Inr (0, [])
      | Some m \<Rightarrow>
          if \<not> is_fitted m then Inr (0, [])
          else (case predict_proba m feature_vector of
                  Inl e \<Rightarrow> Inl e
                | Inr ml_proba \<Rightarrow>
                    (case explain_prediction m feature_vector of
                       Inl e \<Rightarrow> Inl e
                     | Inr ml_explanation \<Rightarrow>
                         Inr (if length ml_proba > 0 then hd ml_proba else 0, ml_explanation))))"

definition predict_single ::
  "EnsembleModel \<Rightarrow> (real \<Rightarrow> nat) \<Rightarrow> datetime \<Rightarrow> ExpenseIn \<Rightarrow> (string \<rightharpoonup> real) \<Rightarrow> real list
     \<Rightarrow> historical_expense list \<Rightarrow> (string \<times> pyval) list" where
  "predict_single ens str_decimals utcnow expense features feature_vector historical_data =
     (case ml_predict ens feature_vector of
        Inr (ml_score, ml_explanation) \<Rightarrow>
          (let rule_violations =
                 check_rules (rule_engine ens) str_decimals utcnow expense features historical_data;
               rule_score = calculate_rule_score rule_violations;
               final_score = combine_scores ens ml_score rule_score;
               is_suspicious = (final_score \<ge> suspicion_threshold ens);
               explanation = create_explanation ens ml_explanation rule_violations
           in [(''anomaly_score'', PFloat final_score),
               (''is_suspicious'', PBool is_suspicious),
               (''ml_score'', PFloat ml_score),
               (''rule_score'', PFloat rule_score),
               (''rule_violations'', PViolations rule_violations),
               (''explanation'', PExplanation explanation),
               (''model_version'', PStr (case the_ml_model ens of None \<Rightarrow> ''rules_only'' | Some m \<Rightarrow> version m))])
      | Inl e \<Rightarrow>
          [(''anomaly_score'', PFloat 0),
           (''is_suspicious'', PBool False),
           (''ml_score'', PFloat 0),
           (''rule_score'', PFloat 0),
           (''rule_violations'', PViolations []),
           (''explanation'', PExplanation []),
           (''model_version'', PStr ''error'')])"


section \<open>Behavioural profiles (models/behavioral_analyzer.py)\<close>

record UserProfile =
  up_user_id :: string
  total_expenses :: nat
  avg_amount :: real
  favorite_categories :: "string list"
  usual_times :: "int list"
  frequent_locations :: "string list"
  preferred_payment_methods :: "string list"
  group_memberships :: "string list"
  risk_score :: real
  last_updated :: datetime

record GroupProfile =
  gp_group_id :: string
  members :: "string list"
  avg_expense_amount :: real
  common_categories :: "string list"
  expense_frequency :: real
  risk_incidents :: int
  trust_score :: real
  created_at :: datetime

text \<open>\<open>total_expenses\<close> is a count: it starts at 0 and is only ever incremented.\<close>

record BehavioralAnalyzer =
  user_profiles :: "string \<rightharpoonup> UserProfile"
  group_profiles :: "string \<rightharpoonup> GroupProfile"

definition new_UserProfile :: "string \<Rightarrow> datetime \<Rightarrow> UserProfile" where
  \<comment> \<open>\<open>UserProfile(user_id=...)\<close>, created at clock reading \<open>now\<close>.\<close>
  "new_UserProfile uid now =
     \<lparr>up_user_id = uid, total_expenses = 0, avg_amount = 0, favorite_categories = [], usual_times = [],
      frequent_locations = [], preferred_payment_methods = [], group_memberships = [], risk_score = 0,
      last_updated = now\<rparr>"

definition new_GroupProfile :: "string \<Rightarrow> datetime \<Rightarrow> GroupProfile" where
  \<comment> \<open>\<open>GroupProfile(group_id=...)\<close>, created at clock reading \<open>now\<close>.\<close>
  "new_GroupProfile gid now =
     \<lparr>gp_group_id = gid, members = [], avg_expense_amount = 0, common_categories = [],
      expense_frequency = 0, risk_incidents = 0, trust_score = 1, created_at = now\<rparr>"

definition append_unique_bounded :: "nat \<Rightarrow> string list \<Rightarrow> string \<Rightarrow> string list" where
  \<comment> \<open>\<open>if x not in xs: xs.append(x); if len(xs) > n: xs = xs[-n:]\<close>\<close>
  "append_unique_bounded n xs x =
     (if x \<notin> set xs then (let ys = xs @ [x] in if length ys > n then last_n n ys else ys) else xs)"

definition update_user_profile :: "UserProfile \<Rightarrow> expense_data \<Rightarrow> bool \<Rightarrow> datetime \<Rightarrow> UserProfile" where
  \<comment> \<open>the branch \<open>if user_id in self.user_profiles\<close>; \<open>now\<close> is read when the expense
      carries no timestamp, and again for \<open>last_updated\<close>.\<close>
  "update_user_profile profile ed is_fraud now =
     (let amount = get_default (ed_amount ed) 0;
          category = get_default (ed_category ed) ''other'';
          payment_method = get_default (ed_payment_method ed) ''unknown'';
          location = get_default (ed_location ed) ''unknown'';
          n = total_expenses profile + 1;
          avg = ((avg_amount profile * real (n - 1)) + amount) / real n;
          times = (case fromisoformat (get_default (ed_timestamp ed) (Iso now None)) of
                     Inl _ \<Rightarrow> usual_times profile
                   | Inr dt \<Rightarrow> (let ts = usual_times profile @ [hour (fst dt)]
                                in if length ts > 20 then last_n 20 ts else ts))
      in profile\<lparr>total_expenses := n,
                 avg_amount := avg,
                 favorite_categories := append_unique_bounded 5 (favorite_categories profile) category,
                 usual_times := times,
                 preferred_payment_methods :=
                   (if payment_method \<notin> set (preferred_payment_methods profile)
                    then preferred_payment_methods profile @ [payment_method]
                    else preferred_payment_methods profile),
                 frequent_locations := append_unique_bounded 10 (frequent_locations profile) location,
                 risk_score := (if is_fraud then min 1 (risk_score profile + 0.1)
                                else max 0 (risk_score profile - 0.01)),
                 last_updated := now\<rparr>)"

definition update_group_profile :: "GroupProfile \<Rightarrow> expense_data \<Rightarrow> bool \<Rightarrow> GroupProfile" where
  \<comment> \<open>the branch \<open>if group_id in self.group_profiles\<close>. \<open>GroupProfile\<close> has no attribute
      \<open>total_expenses\<close>, so \<open>getattr(group_profile, 'total_expenses', 1)\<close> is 1.\<close>
  "update_group_profile group_profile ed is_fraud =
     (let amount = get_default (ed_amount ed) 0;
          category = get_default (ed_category ed) ''other'';
          total = (1::real)
      in group_profile
           \<lparr>avg_expense_amount := ((avg_expense_amount group_profile * total) + amount) / (total + 1),
            common_categories := append_unique_bounded 5 (common_categories group_profile) category,
            risk_incidents := (if is_fraud then risk_incidents group_profile + 1 else risk_incidents group_profile),
            trust_score := (if is_fraud then max 0 (trust_score group_profile - 0.05)
                            else min 1 (trust_score group_profile + 0.001))\<rparr>)"

definition update_profiles :: "BehavioralAnalyzer \<Rightarrow> expense_data \<Rightarrow> bool \<Rightarrow> datetime \<Rightarrow> BehavioralAnalyzer" where
  \<comment> \<open>the profiles in memory; writing them to disk afterwards is outside the model.\<close>
  "update_profiles ba ed is_fraud now =
     (let user_id = get_default (ed_user_id ed) ''unknown'';
          group_id = get_default (ed_group_id ed) ''unknown'';
          ups = (case user_profiles ba user_id of
                   None \<Rightarrow> user_profiles ba
                 | Some profile \<Rightarrow> (user_profiles ba)(user_id \<mapsto> update_user_profile profile ed is_fraud now));
          gps = (case group_profiles ba group_id of
                   None \<Rightarrow> group_profiles ba
                 | Some group_profile \<Rightarrow>
                     (group_profiles ba)(group_id \<mapsto> update_group_profile group_profile ed is_fraud))
      in \<lparr>user_profiles = ups, group_profiles = gps\<rparr>)"

section \<open>Notifications (models/smart_notifications.py)\<close>

datatype AlertSeverity = CRITICAL | HIGH | MEDIUM | LOW | INFO

datatype NotificationChannel = EMAIL | WEBHOOK | SMS | IN_APP | SLACK | DISCORD

datatype criteria = Range "real option" "real option" | Exact string

text \<open>
  A rule's criteria are a dictionary with optional \<open>min\<close> and \<open>max\<close> (\<open>Range\<close>) or a string
  (\<open>Exact\<close>).
\<close>

record NotificationRule =
  nr_name :: string
  conditions :: "(string \<times> criteria) list"
  channels :: "NotificationChannel list"
  severity_threshold :: AlertSeverity
  cooldown_minutes :: int
  enabled :: bool
  last_triggered :: "datetime option"

text \<open>
  \<open>last_triggered\<close> is \<open>None\<close> or the ISO text of a naive clock reading, which
  \<open>fromisoformat\<close> reads back unchanged; the model keeps the reading.
\<close>

record Alert =
  a_id :: string
  a_severity :: AlertSeverity
  a_risk_type :: string
  a_user_id :: string
  a_group_id :: "string option"
  a_expense_amount :: real
  a_risk_score :: real

record notification =
  n_alert_id :: string
  n_channel :: NotificationChannel
  n_timestamp :: datetime
  n_rule :: string
  n_status :: string

fun severity_levels :: "AlertSeverity \<Rightarrow> nat" where
  "severity_levels INFO = 0"
| "severity_levels LOW = 1"
| "severity_levels MEDIUM = 2"
| "severity_levels HIGH = 3"
| "severity_levels CRITICAL = 4"

fun condition_holds :: "Alert \<Rightarrow> string \<times> criteria \<Rightarrow> bool" where
  \<comment> \<open>one round of the loop over \<open>rule.conditions\<close>: \<open>False\<close> where the source returns
      \<open>False\<close>.\<close>
  "condition_holds alert (condition, Range lo hi) =
     (if condition = ''risk_score''
      then get_default lo 0 \<le> a_risk_score alert \<and> a_risk_score alert \<le> get_default hi 1
      else if condition = ''expense_amount''
      then get_default lo 0 \<le> a_expense_amount alert
           \<and> (case hi of None \<Rightarrow> True | Some m \<Rightarrow> a_expense_amount alert \<le> m)
      else if condition = ''alert_type'' then False
      else True)"
| "condition_holds alert (condition, Exact s) =
     (if condition = ''risk_score'' \<or> condition = ''expense_amount'' then True
      else if condition = ''alert_type'' then s = a_risk_type alert
      else True)"

definition matches_rule :: "Alert \<Rightarrow> NotificationRule \<Rightarrow> bool" where
  "matches_rule alert rule =
     (if severity_levels (a_severity alert) < severity_levels (severity_threshold rule) then False
      else list_all (condition_holds alert) (conditions rule))"

text \<open>
  The wall clock is a sequence of readings: \<open>clock n\<close> is what the \<open>n\<close>-th call of
  \<open>datetime.now()\<close> returns. A function that reads the clock takes the number of readings made
  so far and returns the number made after it.
\<close>

record notification_config =
  webhook_enabled :: bool
  webhook_urls :: "string list"
  email_enabled :: bool
  email_recipients :: "string list"
  slack_enabled :: bool
  slack_webhook_url :: string

definition default_config :: notification_config where
  \<comment> \<open>the channels of \<open>_load_config\<close> when no configuration file is found.\<close>
  "default_config =
     \<lparr>webhook_enabled = True, webhook_urls = [], email_enabled = False, email_recipients = [],
      slack_enabled = False, slack_webhook_url = ''''\<rparr>"

record transport =
  http_post :: "string \<Rightarrow> bool"
  smtp_send :: "string list \<Rightarrow> bool"

text \<open>
  The transports are external: \<open>http_post url\<close> tells whether \<open>requests.post\<close> to the URL and
  \<open>raise_for_status\<close> return (\<open>True\<close>) or raise, \<open>smtp_send recipients\<close> whether the SMTP
  session does.
\<close>

fun send_channel ::
  "notification_config \<Rightarrow> transport \<Rightarrow> NotificationChannel \<Rightarrow> (nat \<Rightarrow> datetime) \<Rightarrow> nat \<Rightarrow> bool \<times> nat" where
  \<comment> \<open>the branch of \<open>_send_notifications\<close> for one channel: whether the channel's send returns
      (\<open>True\<close>) or raises, and the readings of the clock made. An enabled webhook reads the
      clock once for its payload and raises at the first URL that fails.\<close>
  "send_channel cfg tr WEBHOOK clock n =
     (if \<not> webhook_enabled cfg then (True, n)
      else (list_all (http_post tr) (webhook_urls cfg), n + 1))"
| "send_channel cfg tr EMAIL clock n =
     (if \<not> email_enabled cfg then (True, n)
      else if email_recipients cfg = [] then (True, n)
      else (smtp_send tr (email_recipients cfg), n))"
| "send_channel cfg tr SLACK clock n =
     (if \<not> slack_enabled cfg then (True, n)
      else if slack_webhook_url cfg = '''' then (True, n)
      else (http_post tr (slack_webhook_url cfg), n))"
| "send_channel cfg tr IN_APP clock n = (True, n)"
| "send_channel cfg tr SMS clock n = (True, n)"
| "send_channel cfg tr DISCORD clock n = (True, n)"

definition should_notify :: "NotificationRule \<Rightarrow> (nat \<Rightarrow> datetime) \<Rightarrow> nat \<Rightarrow> bool \<times> nat" where
  "should_notify rule clock n =
     (case last_triggered rule of
        None \<Rightarrow> (True, n)
      | Some lt \<Rightarrow> (clock n - lt > minutes (cooldown_minutes rule), n + 1))"

fun send_notifications ::
  "notification_config \<Rightarrow> transport \<Rightarrow> Alert \<Rightarrow> NotificationRule \<Rightarrow> NotificationChannel list
     \<Rightarrow> (nat \<Rightarrow> datetime) \<Rightarrow> nat \<Rightarrow> notification list \<Rightarrow> notification list \<times> nat" where
  \<comment> \<open>the loop over the rule's channels: whether the send returns or raises, the attempt is
      appended to the history with a reading of the clock made after the send.\<close>
  "send_notifications cfg tr alert rule [] clock n history = (history, n)"
| "send_notifications cfg tr alert rule (channel # rest) clock n history =
     (let (ok, n1) = send_channel cfg tr channel clock n
      in send_notifications cfg tr alert rule rest clock (n1 + 1)
           (history @ [\<lparr>n_alert_id = a_id alert, n_channel = channel, n_timestamp = clock n1,
                        n_rule = nr_name rule,
                        n_status = (if ok then ''sent'' else ''failed'')\<rparr>]))"

definition process_rule ::
  "notification_config \<Rightarrow> transport \<Rightarrow> Alert \<Rightarrow> (nat \<Rightarrow> datetime)
     \<Rightarrow> NotificationRule \<Rightarrow> nat \<times> notification list \<Rightarrow> NotificationRule \<times> nat \<times> notification list" where
  \<comment> \<open>the body of the loop of \<open>_process_alert\<close>, for one rule.\<close>
  "process_rule cfg tr alert clock rule st =
     (let (n, history) = st
      in if \<not> enabled rule then (rule, n, history)
         else if matches_rule alert rule
         then (let (notify, n1) = should_notify rule clock n
               in if notify
                  then (let (history', n2) = send_notifications cfg tr alert rule (channels rule) clock n1 history
                        in (rule\<lparr>last_triggered := Some (clock n2)\<rparr>, n2 + 1, history'))
                  else (rule, n1, history))
         else (rule, n, history))"

fun process_alert ::
  "notification_config \<Rightarrow> transport \<Rightarrow> Alert \<Rightarrow> (nat \<Rightarrow> datetime)
     \<Rightarrow> NotificationRule list \<Rightarrow> nat \<times> notification list \<Rightarrow> NotificationRule list \<times> nat \<times> notification list" where
  "process_alert cfg tr alert clock [] st = ([], st)"
| "process_alert cfg tr alert clock (rule # rest) st =
     (let (rule', st') = process_rule cfg tr alert clock rule st;
          (rest', st'') = process_alert cfg tr alert clock rest st'
      in (rule' # rest', st''))"

definition gate_open :: "NotificationRule \<Rightarrow> datetime \<Rightarrow> bool" where
  \<comment> \<open>the rule never fired, or the reading is more than the cooldown after \<open>last_triggered\<close>.\<close>
  "gate_open rule now =
     (case last_triggered rule of None \<Rightarrow> True | Some lt \<Rightarrow> now - lt > minutes (cooldown_minutes rule))"

section \<open>Derived notions used in the statements\<close>

definition velocity_signal :: "engine \<Rightarrow> expense_data \<Rightarrow> datetime \<Rightarrow> real" where
  "velocity_signal eng ed t =
     fst (analyze_velocity eng (get_default (ed_user_id ed) ''unknown'') (get_default (ed_amount ed) 0) t)"

definition coordination_signal :: "engine \<Rightarrow> expense_data \<Rightarrow> datetime \<Rightarrow> real" where
  \<comment> \<open>the coordination check runs on the engine the velocity check leaves behind.\<close>
  "coordination_signal eng ed t =
     fst (analyze_group_coordination
            (snd (analyze_velocity eng (get_default (ed_user_id ed) ''unknown'') (get_default (ed_amount ed) 0) t))
            (get_default (ed_group_id ed) ''unknown'') ed t)"

definition score_of :: "risk_analysis \<Rightarrow> string \<Rightarrow> real option" where
  \<comment> \<open>\<open>risk_scores[key]\<close> of a returned analysis; \<open>None\<close> where the key is missing and the
      lookup raises \<open>KeyError\<close>.\<close>
  "score_of r k = map_of (ra_risk_scores r) k"

definition window_ok :: "engine \<Rightarrow> string \<Rightarrow> datetime \<Rightarrow> bool" where
  \<comment> \<open>the user's stored window holds earlier readings of the clock and non-negative amounts.\<close>
  "window_ok eng user_id now = list_all (\<lambda>(ts, a). ts \<le> now \<and> 0 \<le> a) (user_velocities eng user_id)"

definition plain_amount :: "real \<Rightarrow> bool" where
  \<comment> \<open>an amount that none of the special cases of \<open>_analyze_amount_suspicion\<close> picks out.\<close>
  "plain_amount a =
     (\<not> (py_fmod a 100 = 0 \<and> a \<ge> 100)
      \<and> \<not> list_ex (\<lambda>threshold. threshold - 50 \<le> a \<and> a \<le> threshold) suspicious_thresholds
      \<and> a > 1)"

definition simple_expense :: "string \<Rightarrow> real \<Rightarrow> string \<Rightarrow> expense_data" where
  \<comment> \<open>an expense of group \<open>g1\<close> with the keys the engine reads.\<close>
  "simple_expense user amount category =
     \<lparr>ed_user_id = Some user, ed_group_id = Some ''g1'', ed_amount = Some amount,
      ed_category = Some category, ed_location = None, ed_description = None,
      ed_payment_method = None, ed_timestamp = None\<rparr>"


definition clustered_engine :: engine where
  \<comment> \<open>the engine after three members of group \<open>g1\<close> each submitted an expense, a minute apart
      from noon.\<close>
  "clustered_engine =
     snd (analyze_real_time_risk
            (snd (analyze_real_time_risk
                    (snd (analyze_real_time_risk (init_engine 60) (simple_expense ''u1'' 10 ''food'') 43200000000))
                    (simple_expense ''u2'' 20 ''travel'') 43260000000))
            (simple_expense ''u3'' 30 ''books'') 43320000000)"


definition valid_event :: "expense_data \<Rightarrow> bool" where
  \<comment> \<open>an event the engine is meant for: it carries an amount, and the amount is positive.\<close>
  "valid_event ed = (case ed_amount ed of None \<Rightarrow> False | Some a \<Rightarrow> 0 < a)"

fun run_engine :: "engine \<Rightarrow> (expense_data \<times> datetime) list \<Rightarrow> engine" where
  \<comment> \<open>the engine after a sequence of analyses, each with the clock reading it was made at.\<close>
  "run_engine eng [] = eng"
| "run_engine eng ((ed, t) # rest) = run_engine (snd (analyze_real_time_risk eng ed t)) rest"

definition three_expenses :: "(expense_data \<times> datetime) list" where
  \<comment> \<open>three members of group \<open>g1\<close> each submit an expense, a minute apart from noon.\<close>
  "three_expenses =
     [(simple_expense ''u1'' 10 ''food'', 43200000000), (simple_expense ''u2'' 20 ''travel'', 43260000000),
      (simple_expense ''u3'' 30 ''books'', 43320000000)]"

definition reliable_transport :: transport where
  \<comment> \<open>transports that never fail.\<close>
  "reliable_transport = \<lparr>http_post = (\<lambda>_. True), smtp_send = (\<lambda>_. True)\<rparr>"

definition large_expense :: expense_data where
  \<comment> \<open>an expense of 10000 by user \<open>u1\<close> in group \<open>g1\<close>.\<close>
  "large_expense = simple_expense ''u1'' 10000 ''food''"

definition engine_at_noon :: engine where
  \<comment> \<open>a new engine after it analysed \<open>large_expense\<close> at 12:00.\<close>
  "engine_at_noon = run_engine (init_engine 60) [(large_expense, 43200000000)]"

definition default_rules :: "NotificationRule list" where
  \<comment> \<open>the rules \<open>_setup_default_rules\<close> installs.\<close>
  "default_rules =
     [\<lparr>nr_name = ''Critical Fraud Alert'', conditions = [(''risk_score'', Range (Some 0.8) None)],
       channels = [WEBHOOK, EMAIL], severity_threshold = CRITICAL, cooldown_minutes = 15,
       enabled = True, last_triggered = None\<rparr>,
      \<lparr>nr_name = ''High Risk Transaction'', conditions = [(''risk_score'', Range (Some 0.6) None)],
       channels = [WEBHOOK], severity_threshold = HIGH, cooldown_minutes = 30,
       enabled = True, last_triggered = None\<rparr>,
      \<lparr>nr_name = ''Velocity Alert'', conditions = [(''alert_type'', Exact ''velocity_risk'')],
       channels = [WEBHOOK, IN_APP], severity_threshold = MEDIUM, cooldown_minutes = 45,
       enabled = True, last_triggered = None\<rparr>,
      \<lparr>nr_name = ''Group Coordination Alert'', conditions = [(''alert_type'', Exact ''coordination_risk'')],
       channels = [WEBHOOK, EMAIL], severity_threshold = HIGH, cooldown_minutes = 20,
       enabled = True, last_triggered = None\<rparr>,
      \<lparr>nr_name = ''Large Amount Alert'', conditions = [(''expense_amount'', Range (Some 5000) None)],
       channels = [WEBHOOK], severity_threshold = MEDIUM, cooldown_minutes = 60,
       enabled = True, last_triggered = None\<rparr>]"

definition high_risk_rule :: NotificationRule where
  \<comment> \<open>the second of the default rules.\<close>
  "high_risk_rule =
     \<lparr>nr_name = ''High Risk Transaction'', conditions = [(''risk_score'', Range (Some 0.6) None)],
      channels = [WEBHOOK], severity_threshold = HIGH, cooldown_minutes = 30,
      enabled = True, last_triggered = None\<rparr>"

definition high_alert :: "string \<Rightarrow> string \<Rightarrow> Alert" where
  \<comment> \<open>an alert of severity HIGH and risk score 0.7 about a user and a group.\<close>
  "high_alert user grp =
     \<lparr>a_id = ''overall_realtime_risk_'' @ user, a_severity = HIGH, a_risk_type = ''overall_realtime_risk'',
      a_user_id = user, a_group_id = Some grp, a_expense_amount = 42, a_risk_score = 0.7\<rparr>"

definition second_clock :: "nat \<Rightarrow> datetime" where
  \<comment> \<open>a clock whose readings are one second apart.\<close>
  "second_clock n = 1000000 * int n"

definition mismatched_expense :: ExpenseIn where
  \<comment> \<open>the request of \<open>test_predict_participant_amount_mismatch\<close>: two shares of 20 against a
      total of 50, at 2023-12-01T18:30:00Z.\<close>
  "mismatched_expense =
     \<lparr>e_expense_id = ''test_123'', e_group_id = ''group_456'', e_payer_id = ''user_789'',
      e_participants = [\<lparr>p_user_id = ''user_789'', p_amount = 20\<rparr>, \<lparr>p_user_id = ''user_101'', p_amount = 20\<rparr>],
      e_amount = 50, e_currency = ''USD'', e_merchant = Some ''Restaurant ABC'', e_category = Some ''food'',
      e_timestamp = Iso 1701455400000000 (Some 0)\<rparr>"

definition valid_expense :: ExpenseIn where
  \<comment> \<open>the request of \<open>test_predict_valid_expense\<close>: two shares of 25.50 making 51.00.\<close>
  "valid_expense =
     \<lparr>e_expense_id = ''test_123'', e_group_id = ''group_456'', e_payer_id = ''user_789'',
      e_participants = [\<lparr>p_user_id = ''user_789'', p_amount = 25.5\<rparr>, \<lparr>p_user_id = ''user_101'', p_amount = 25.5\<rparr>],
      e_amount = 51, e_currency = ''USD'', e_merchant = None, e_category = None,
      e_timestamp = Iso 1701455400000000 (Some 0)\<rparr>"

definition failing_model :: ml_model where
  \<comment> \<open>a fitted anomaly model whose \<open>predict_proba\<close> raises.\<close>
  "failing_model =
     \<lparr>is_fitted = True, predict_proba = (\<lambda>_. Inl ProviderError), explain_prediction = (\<lambda>_. Inr []),
      version = ''1.0.0''\<rparr>"

definition constant_model :: "real \<Rightarrow> ml_model" where
  \<comment> \<open>a fitted anomaly model that answers every vector with one probability.\<close>
  "constant_model p =
     \<lparr>is_fitted = True, predict_proba = (\<lambda>_. Inr [p]), explain_prediction = (\<lambda>_. Inr []),
      version = ''1.0.0''\<rparr>"

definition result_keys :: "string list" where
  \<comment> \<open>the keys of the dictionary \<open>predict_single\<close> returns, on either path.\<close>
  "result_keys =
     [''anomaly_score'', ''is_suspicious'', ''ml_score'', ''rule_score'', ''rule_violations'',
      ''explanation'', ''model_version'']"

definition safe_default :: "(string \<times> pyval) list" where
  \<comment> \<open>the dictionary the handler of \<open>predict_single\<close> returns.\<close>
  "safe_default =
     [(''anomaly_score'', PFloat 0), (''is_suspicious'', PBool False), (''ml_score'', PFloat 0),
      (''rule_score'', PFloat 0), (''rule_violations'', PViolations []), (''explanation'', PExplanation []),
      (''model_version'', PStr ''error'')]"

definition created_profiles :: BehavioralAnalyzer where
  \<comment> \<open>the analyser after \<open>analyze_expense\<close> created the profiles of user \<open>u1\<close> and group
      \<open>g1\<close>.\<close>
  "created_profiles =
     \<lparr>user_profiles = [''u1'' \<mapsto> new_UserProfile ''u1'' 0],
      group_profiles = [''g1'' \<mapsto> new_GroupProfile ''g1'' 0]\<rparr>"

section \<open>Real-time risk engine: facts\<close>

subsection \<open>What one analysis returns and leaves behind\<close>

lemma set_deque_append: "set (deque_append n q x) \<subseteq> insert x (set q)"
proof -
  have "set (drop (length q + 1 - n) (q @ [x])) \<subseteq> set (q @ [x])"
    by (rule set_drop_subset)
  then show ?thesis
    by (simp add: deque_append_def del: drop_append)
qed

lemma recent_events_analyze_velocity:
  "recent_events (snd (analyze_velocity eng u a t)) = recent_events eng"
  by (simp add: analyze_velocity_def Let_def)

lemma group_activities_analyze_velocity:
  "group_activities (snd (analyze_velocity eng u a t)) = group_activities eng"
  by (simp add: analyze_velocity_def Let_def)

lemma monitoring_window_analyze_velocity:
  "monitoring_window (snd (analyze_velocity eng u a t)) = monitoring_window eng"
  by (simp add: analyze_velocity_def Let_def)

lemma recent_events_analyze_group_coordination:
  "recent_events (snd (analyze_group_coordination eng g ed t)) = recent_events eng"
  by (simp add: analyze_group_coordination_def Let_def)

lemma detect_anomalies_cong:
  "recent_events eng' = recent_events eng \<Longrightarrow> detect_anomalies eng' u ed = detect_anomalies eng u ed"
  by (simp add: detect_anomalies_def)

lemma fst_signal_scores:
  "fst (signal_scores eng ed t) =
     [(''velocity_risk'', velocity_signal eng ed t),
      (''pattern_risk'', analyze_patterns ed),
      (''coordination_risk'', coordination_signal eng ed t),
      (''anomaly_risk'', detect_anomalies eng (get_default (ed_user_id ed) ''unknown'') ed),
      (''temporal_risk'', analyze_temporal_patterns ed t),
      (''amount_suspicion'', analyze_amount_suspicion (get_default (ed_amount ed) 0))]"
proof -
  let ?u = "get_default (ed_user_id ed) ''unknown''"
  let ?e1 = "snd (analyze_velocity eng ?u (get_default (ed_amount ed) 0) t)"
  let ?e2 = "snd (analyze_group_coordination ?e1 (get_default (ed_group_id ed) ''unknown'') ed t)"
  have "recent_events ?e2 = recent_events eng"
    by (simp add: recent_events_analyze_velocity recent_events_analyze_group_coordination)
  then have "detect_anomalies ?e2 ?u ed = detect_anomalies eng ?u ed"
    by (rule detect_anomalies_cong)
  then show ?thesis
    unfolding signal_scores_def velocity_signal_def coordination_signal_def Let_def
    by (simp add: split_beta)
qed

lemma snd_signal_scores:
  "snd (signal_scores eng ed t) =
     snd (analyze_group_coordination
            (snd (analyze_velocity eng (get_default (ed_user_id ed) ''unknown'') (get_default (ed_amount ed) 0) t))
            (get_default (ed_group_id ed) ''unknown'') ed t)"
  by (simp add: signal_scores_def Let_def split_beta)

lemma ra_risk_scores_analyze:
  "ra_risk_scores (fst (analyze_real_time_risk eng ed t)) =
     fst (signal_scores eng ed t) @ [(''overall_realtime_risk'', np_mean (map snd (fst (signal_scores eng ed t))))]"
  by (simp add: analyze_real_time_risk_def Let_def split_beta)

lemma ra_alerts_analyze:
  "ra_alerts (fst (analyze_real_time_risk eng ed t)) =
     generate_alerts (ra_risk_scores (fst (analyze_real_time_risk eng ed t))) ed"
  by (simp add: analyze_real_time_risk_def Let_def split_beta)

lemma snd_analyze_real_time_risk:
  "snd (analyze_real_time_risk eng ed t) =
     store_event (snd (signal_scores eng ed t))
       \<lparr>re_timestamp = t, re_user_id = get_default (ed_user_id ed) ''unknown'',
        re_group_id = get_default (ed_group_id ed) ''unknown'',
        re_risk_score = np_mean (map snd (fst (signal_scores eng ed t))), re_details = ed,
        re_scores = fst (signal_scores eng ed t)
                    @ [(''overall_realtime_risk'', np_mean (map snd (fst (signal_scores eng ed t))))]\<rparr>"
  by (simp add: analyze_real_time_risk_def Let_def split_beta)

lemma mean_of_signals:
  "np_mean (map snd (fst (signal_scores eng ed t))) =
     (velocity_signal eng ed t + analyze_patterns ed + coordination_signal eng ed t
      + detect_anomalies eng (get_default (ed_user_id ed) ''unknown'') ed
      + analyze_temporal_patterns ed t + analyze_amount_suspicion (get_default (ed_amount ed) 0)) / 6"
  by (simp add: fst_signal_scores np_mean_def)

lemma ra_risk_scores_explicit:
  "ra_risk_scores (fst (analyze_real_time_risk eng ed t)) =
     [(''velocity_risk'', velocity_signal eng ed t),
      (''pattern_risk'', analyze_patterns ed),
      (''coordination_risk'', coordination_signal eng ed t),
      (''anomaly_risk'', detect_anomalies eng (get_default (ed_user_id ed) ''unknown'') ed),
      (''temporal_risk'', analyze_temporal_patterns ed t),
      (''amount_suspicion'', analyze_amount_suspicion (get_default (ed_amount ed) 0)),
      (''overall_realtime_risk'',
       (velocity_signal eng ed t + analyze_patterns ed + coordination_signal eng ed t
        + detect_anomalies eng (get_default (ed_user_id ed) ''unknown'') ed
        + analyze_temporal_patterns ed t + analyze_amount_suspicion (get_default (ed_amount ed) 0)) / 6)]"
  unfolding ra_risk_scores_analyze mean_of_signals by (simp add: fst_signal_scores)

lemma score_of_analyze:
  "score_of (fst (analyze_real_time_risk eng ed t)) ''velocity_risk'' = Some (velocity_signal eng ed t)"
  "score_of (fst (analyze_real_time_risk eng ed t)) ''pattern_risk'' = Some (analyze_patterns ed)"
  "score_of (fst (analyze_real_time_risk eng ed t)) ''coordination_risk'' = Some (coordination_signal eng ed t)"
  "score_of (fst (analyze_real_time_risk eng ed t)) ''anomaly_risk'' =
     Some (detect_anomalies eng (get_default (ed_user_id ed) ''unknown'') ed)"
  "score_of (fst (analyze_real_time_risk eng ed t)) ''temporal_risk'' = Some (analyze_temporal_patterns ed t)"
  "score_of (fst (analyze_real_time_risk eng ed t)) ''amount_suspicion'' =
     Some (analyze_amount_suspicion (get_default (ed_amount ed) 0))"
  "score_of (fst (analyze_real_time_risk eng ed t)) ''overall_realtime_risk'' =
     Some ((velocity_signal eng ed t + analyze_patterns ed + coordination_signal eng ed t
            + detect_anomalies eng (get_default (ed_user_id ed) ''unknown'') ed
            + analyze_temporal_patterns ed t + analyze_amount_suspicion (get_default (ed_amount ed) 0)) / 6)"
  by (simp_all add: score_of_def ra_risk_scores_explicit)

lemma ra_risk_level_analyze:
  "ra_risk_level (fst (analyze_real_time_risk eng ed t)) =
     categorize_risk
       ((velocity_signal eng ed t + analyze_patterns ed + coordination_signal eng ed t
         + detect_anomalies eng (get_default (ed_user_id ed) ''unknown'') ed
         + analyze_temporal_patterns ed t + analyze_amount_suspicion (get_default (ed_amount ed) 0)) / 6)"
proof -
  have "ra_risk_level (fst (analyze_real_time_risk eng ed t)) =
          categorize_risk (np_mean (map snd (fst (signal_scores eng ed t))))"
    by (simp add: analyze_real_time_risk_def Let_def split_beta)
  then show ?thesis by (simp only: mean_of_signals)
qed

lemma user_velocities_analyze:
  "user_velocities (snd (analyze_real_time_risk eng ed t)) =
     (user_velocities eng)
       (get_default (ed_user_id ed) ''unknown'' :=
          dropWhile (\<lambda>(ts, _). ts < t - monitoring_window eng)
            (deque_append 100 (user_velocities eng (get_default (ed_user_id ed) ''unknown''))
               (t, get_default (ed_amount ed) 0)))"
  by (simp add: snd_analyze_real_time_risk snd_signal_scores store_event_def
      analyze_group_coordination_def analyze_velocity_def Let_def)

lemma group_activities_analyze:
  "group_activities (snd (analyze_real_time_risk eng ed t)) =
     (group_activities eng)
       (get_default (ed_group_id ed) ''unknown'' :=
          dropWhile (\<lambda>(ts, _). ts < t - monitoring_window eng)
            (deque_append 200 (group_activities eng (get_default (ed_group_id ed) ''unknown'')) (t, ed)))"
  by (simp add: snd_analyze_real_time_risk snd_signal_scores store_event_def
      analyze_group_coordination_def analyze_velocity_def Let_def)

lemma monitoring_window_analyze:
  "monitoring_window (snd (analyze_real_time_risk eng ed t)) = monitoring_window eng"
  by (simp add: snd_analyze_real_time_risk snd_signal_scores store_event_def
      analyze_group_coordination_def analyze_velocity_def Let_def)

lemma recent_users_analyze:
  "re_user_id ` set (recent_events (snd (analyze_real_time_risk eng ed t)))
     \<subseteq> insert (get_default (ed_user_id ed) ''unknown'') (re_user_id ` set (recent_events eng))"
proof -
  have old: "recent_events (snd (signal_scores eng ed t)) = recent_events eng"
    by (simp add: snd_signal_scores recent_events_analyze_group_coordination recent_events_analyze_velocity)
  obtain ev where ev: "recent_events (snd (analyze_real_time_risk eng ed t)) = deque_append 10000 (recent_events eng) ev"
    and u: "re_user_id ev = get_default (ed_user_id ed) ''unknown''"
    by (simp add: snd_analyze_real_time_risk store_event_def old)
  show ?thesis
    unfolding ev using set_deque_append [of 10000 "recent_events eng" ev] u by auto
qed

subsection \<open>The range of each signal\<close>

lemma velocity_window_entries:
  fixes t :: datetime and amount :: real
  assumes "list_all (\<lambda>(ts, a). ts \<le> t \<and> 0 \<le> a) q" and "0 \<le> amount"
  shows "list_all (\<lambda>(ts, a). ts \<le> t \<and> 0 \<le> a)
           (dropWhile P (deque_append n q (t, amount)))"
proof -
  have sub: "x \<in> insert (t, amount) (set q)" if "x \<in> set (dropWhile P (deque_append n q (t, amount)))" for x
    using that set_deque_append [of n q "(t, amount)"] by (blast dest: set_dropWhileD)
  show ?thesis
    unfolding list_all_iff
  proof
    fix x assume "x \<in> set (dropWhile P (deque_append n q (t, amount)))"
    then have "x \<in> insert (t, amount) (set q)" by (rule sub)
    then show "case x of (ts, a) \<Rightarrow> ts \<le> t \<and> 0 \<le> a"
      using assms by (auto simp: list_all_iff)
  qed
qed

lemma velocity_score_range:
  fixes xs :: "(datetime \<times> real) list" and v :: real
  assumes ok: "list_all (\<lambda>(ts, a). ts \<le> t \<and> 0 \<le> a) xs"
  defines "v \<equiv> (if length xs < 2 then 0.1
          else let recent_count = length xs;
                   total_amount = sum_list (map snd xs);
                   time_span = total_seconds (t - fst (hd xs)) / 3600
               in if time_span = 0 then 0.9
                  else let frequency_risk = min 1 (real recent_count / 20);
                           amount_velocity_risk = min 1 (total_amount / (time_span * 1000))
                       in (frequency_risk + amount_velocity_risk) / 2)"
  shows "0 \<le> v" and "v \<le> 1"
proof -
  have nonneg: "0 \<le> sum_list (map snd xs)"
    using ok by (intro sum_list_nonneg) (auto simp: list_all_iff)
  have span: "0 \<le> total_seconds (t - fst (hd xs)) / 3600" if "xs \<noteq> []"
  proof -
    from that have "hd xs \<in> set xs" by simp
    with ok have "fst (hd xs) \<le> t" by (auto simp: list_all_iff)
    then show ?thesis by (simp add: total_seconds_def)
  qed
  show "0 \<le> v"
  proof (cases "length xs < 2")
    case True then show ?thesis by (simp add: v_def)
  next
    case False
    then have ne: "xs \<noteq> []" by auto
    have "0 \<le> sum_list (map snd xs) / (total_seconds (t - fst (hd xs)) / 3600 * 1000)"
      using nonneg span [OF ne] by simp
    then show ?thesis using False by (simp add: v_def Let_def min_def)
  qed
  show "v \<le> 1"
    by (simp add: v_def Let_def min_def)
qed

lemma analyze_velocity_range:
  assumes "list_all (\<lambda>(ts, a). ts \<le> t \<and> 0 \<le> a) (user_velocities eng u)" and "0 \<le> amount"
  shows "0 \<le> fst (analyze_velocity eng u amount t)" and "fst (analyze_velocity eng u amount t) \<le> 1"
proof -
  let ?xs = "dropWhile (\<lambda>(ts, _). ts < t - monitoring_window eng)
               (deque_append 100 (user_velocities eng u) (t, amount))"
  have ok: "list_all (\<lambda>(ts, a). ts \<le> t \<and> 0 \<le> a) ?xs"
    using assms by (rule velocity_window_entries)
  show "0 \<le> fst (analyze_velocity eng u amount t)"
    using velocity_score_range(1) [OF ok] by (simp add: analyze_velocity_def Let_def)
  show "fst (analyze_velocity eng u amount t) \<le> 1"
    using velocity_score_range(2) [OF ok] by (simp add: analyze_velocity_def Let_def)
qed

lemma analyze_patterns_range: "0 \<le> analyze_patterns ed" "analyze_patterns ed \<le> 0.3"
  by (simp_all add: analyze_patterns_def Let_def)

lemma analyze_group_coordination_range:
  "0.1 \<le> fst (analyze_group_coordination eng g ed t)" "fst (analyze_group_coordination eng g ed t) \<le> 0.8"
  by (simp_all add: analyze_group_coordination_def Let_def)

lemma analyze_temporal_patterns_range:
  "0 \<le> analyze_temporal_patterns ed t" "analyze_temporal_patterns ed t \<le> 0.9"
  by (simp_all add: analyze_temporal_patterns_def Let_def)

lemma analyze_amount_suspicion_range:
  "0.1 \<le> analyze_amount_suspicion a" "analyze_amount_suspicion a \<le> 0.6"
  by (simp_all add: analyze_amount_suspicion_def)

lemma detect_anomalies_range:
  "0 \<le> detect_anomalies eng u ed" "detect_anomalies eng u ed \<le> 1"
proof -
  define txs where "txs = last_n 20 (map re_details (filter (\<lambda>e. re_user_id e = u) (recent_events eng)))"
  define amounts where "amounts = map (\<lambda>t. get_default (ed_amount t) 0) txs"
  define std0 where "std0 = (if length amounts > 1 then np_std amounts else np_mean amounts * 0.5)"
  define std_amount where "std_amount = (if std0 = 0 then np_mean amounts * 0.1 else std0)"
  define Z where "Z = (if std_amount > 0 then \<bar>get_default (ed_amount ed) 0 - np_mean amounts\<bar> / std_amount else 0)"
  define cs where "cs = map (\<lambda>t. get_default (ed_category t) '''') txs"
  define F where "F = (if cs \<noteq> [] then real (count_list cs (get_default (ed_category ed) '''')) / real (length cs) else 0)"
  have eq: "detect_anomalies eng u ed = (if txs = [] then 0.3 else (min 1 (Z / 3) + (1 - F)) / 2)"
    unfolding detect_anomalies_def Let_def txs_def [symmetric] amounts_def [symmetric]
      std0_def [symmetric] std_amount_def [symmetric] Z_def [symmetric] cs_def [symmetric] F_def [symmetric]
    by (rule refl)
  have Z: "0 \<le> Z" by (simp add: Z_def)
  have F0: "0 \<le> F" by (simp add: F_def)
  have F1: "F \<le> 1"
    using count_le_length [of cs "get_default (ed_category ed) ''''"]
    by (simp add: F_def divide_le_eq)
  from Z F1 show "0 \<le> detect_anomalies eng u ed" by (simp add: eq min_def)
  from F0 show "detect_anomalies eng u ed \<le> 1" by (simp add: eq min_def)
qed

lemma window_ok_init: "window_ok (init_engine m) u now"
  by (simp add: window_ok_def init_engine_def)

lemma window_ok_analyze:
  assumes "window_ok eng u now" and "0 \<le> get_default (ed_amount ed) 0" and "now \<le> later"
  shows "window_ok (snd (analyze_real_time_risk eng ed now)) u later"
proof -
  let ?me = "get_default (ed_user_id ed) ''unknown''"
  have mine: "list_all (\<lambda>(ts, a). ts \<le> now \<and> 0 \<le> a)
                (dropWhile (\<lambda>(ts, _). ts < now - monitoring_window eng)
                   (deque_append 100 (user_velocities eng ?me) (now, get_default (ed_amount ed) 0)))"
    if "window_ok eng ?me now"
    using that assms(2) unfolding window_ok_def by (rule velocity_window_entries)
  have "window_ok (snd (analyze_real_time_risk eng ed now)) u now"
  proof (cases "u = ?me")
    case True
    with assms(1) mine show ?thesis by (simp add: window_ok_def user_velocities_analyze)
  next
    case False
    with assms(1) show ?thesis by (simp add: window_ok_def user_velocities_analyze)
  qed
  with assms(3) show ?thesis
    by (auto simp: window_ok_def list_all_iff)
qed

subsection \<open>The concrete runs used below\<close>

lemma food_temporal_noon: "analyze_temporal_patterns (simple_expense ''u1'' 42 ''food'') 43200000000 = 0"
  by (simp add: analyze_temporal_patterns_def simple_expense_def hour_def weekday_def get_default_def
      leisure_words_def lower_def lower_char_def Let_def)

lemma food_temporal_night: "analyze_temporal_patterns (simple_expense ''u1'' 42 ''food'') 10800000000 = 0.4"
  by (simp add: analyze_temporal_patterns_def simple_expense_def hour_def weekday_def get_default_def
      leisure_words_def lower_def lower_char_def Let_def)

lemma clustered_window: "monitoring_window clustered_engine = 3600000000"
  by (simp add: clustered_engine_def monitoring_window_analyze init_engine_def minutes_def)

lemma clustered_group:
  "group_activities clustered_engine ''g1'' =
     [(43200000000, simple_expense ''u1'' 10 ''food''), (43260000000, simple_expense ''u2'' 20 ''travel''),
      (43320000000, simple_expense ''u3'' 30 ''books'')]"
  by (simp add: clustered_engine_def group_activities_analyze monitoring_window_analyze init_engine_def
      minutes_def simple_expense_def get_default_def deque_append_def)

lemma clustered_velocity: "user_velocities clustered_engine ''u4'' = []"
  by (simp add: clustered_engine_def user_velocities_analyze monitoring_window_analyze init_engine_def
      simple_expense_def get_default_def)

lemma clustered_users: "re_user_id ` set (recent_events clustered_engine) \<subseteq> {''u1'', ''u2'', ''u3''}"
proof -
  let ?e1 = "snd (analyze_real_time_risk (init_engine 60) (simple_expense ''u1'' 10 ''food'') 43200000000)"
  let ?e2 = "snd (analyze_real_time_risk ?e1 (simple_expense ''u2'' 20 ''travel'') 43260000000)"
  have 1: "re_user_id ` set (recent_events ?e1) \<subseteq> {''u1''}"
    using recent_users_analyze [of "init_engine 60" "simple_expense ''u1'' 10 ''food''" 43200000000]
    by (simp add: init_engine_def simple_expense_def get_default_def)
  have 2: "re_user_id ` set (recent_events ?e2) \<subseteq> {''u1'', ''u2''}"
    using recent_users_analyze [of ?e1 "simple_expense ''u2'' 20 ''travel''" 43260000000] 1
    by (auto simp: simple_expense_def get_default_def)
  show ?thesis
    unfolding clustered_engine_def
    using recent_users_analyze [of ?e2 "simple_expense ''u3'' 30 ''books''" 43320000000] 2
    by (auto simp: simple_expense_def get_default_def)
qed

lemma clustered_velocity_signal:
  "velocity_signal clustered_engine (simple_expense ''u4'' 42 ''misc'') 43380000000 = 0.1"
  by (simp add: velocity_signal_def analyze_velocity_def clustered_velocity clustered_window
      simple_expense_def get_default_def deque_append_def Let_def)

lemma clustered_coordination_signal:
  "coordination_signal clustered_engine (simple_expense ''u4'' 42 ''misc'') 43380000000 = 0.7"
proof -
  let ?v = "snd (analyze_velocity clustered_engine ''u4'' 42 43380000000)"
  have g: "group_activities ?v ''g1'' = group_activities clustered_engine ''g1''"
    by (simp add: group_activities_analyze_velocity)
  have w: "monitoring_window ?v = 3600000000"
    by (simp add: monitoring_window_analyze_velocity clustered_window)
  have "fst (analyze_group_coordination ?v ''g1'' (simple_expense ''u4'' 42 ''misc'') 43380000000) = 0.7"
    unfolding analyze_group_coordination_def g w clustered_group
    by (simp add: simple_expense_def get_default_def deque_append_def last_n_def total_seconds_def Let_def)
  then show ?thesis
    by (simp add: coordination_signal_def simple_expense_def get_default_def)
qed

lemma clustered_anomaly:
  "detect_anomalies clustered_engine ''u4'' (simple_expense ''u4'' 42 ''misc'') = 0.3"
proof -
  have "filter (\<lambda>e. re_user_id e = ''u4'') (recent_events clustered_engine) = []"
    using clustered_users by (auto simp: filter_empty_conv)
  then show ?thesis
    by (simp add: detect_anomalies_def last_n_def)
qed

lemma misc_pattern: "analyze_patterns (simple_expense ''u4'' 42 ''misc'') = 0"
  by (simp add: analyze_patterns_def simple_expense_def get_default_def round_amounts_def
      common_fraud_categories_def high_risk_locations_def suspicious_words_def lower_def lower_char_def Let_def)

lemma misc_temporal: "analyze_temporal_patterns (simple_expense ''u4'' 42 ''misc'') 43380000000 = 0"
  by (simp add: analyze_temporal_patterns_def simple_expense_def hour_def weekday_def get_default_def
      leisure_words_def lower_def lower_char_def Let_def)

lemma misc_amount: "analyze_amount_suspicion 42 = 0.1"
  by (simp add: analyze_amount_suspicion_def py_fmod_def suspicious_thresholds_def)

lemma dining_velocity_signal:
  "velocity_signal clustered_engine (simple_expense ''u4'' 42 ''dining'') 43380000000 = 0.1"
  by (simp add: velocity_signal_def analyze_velocity_def clustered_velocity clustered_window
      simple_expense_def get_default_def deque_append_def Let_def)

lemma dining_coordination_signal:
  "coordination_signal clustered_engine (simple_expense ''u4'' 42 ''dining'') 43380000000 = 0.7"
proof -
  let ?v = "snd (analyze_velocity clustered_engine ''u4'' 42 43380000000)"
  have g: "group_activities ?v ''g1'' = group_activities clustered_engine ''g1''"
    by (simp add: group_activities_analyze_velocity)
  have w: "monitoring_window ?v = 3600000000"
    by (simp add: monitoring_window_analyze_velocity clustered_window)
  have "fst (analyze_group_coordination ?v ''g1'' (simple_expense ''u4'' 42 ''dining'') 43380000000) = 0.7"
    unfolding analyze_group_coordination_def g w clustered_group
    by (simp add: simple_expense_def get_default_def deque_append_def last_n_def total_seconds_def Let_def)
  then show ?thesis
    by (simp add: coordination_signal_def simple_expense_def get_default_def)
qed

lemma dining_anomaly:
  "detect_anomalies clustered_engine ''u4'' (simple_expense ''u4'' 42 ''dining'') = 0.3"
proof -
  have "filter (\<lambda>e. re_user_id e = ''u4'') (recent_events clustered_engine) = []"
    using clustered_users by (auto simp: filter_empty_conv)
  then show ?thesis
    by (simp add: detect_anomalies_def last_n_def)
qed

lemma dining_pattern: "analyze_patterns (simple_expense ''u4'' 42 ''dining'') = 0"
  by (simp add: analyze_patterns_def simple_expense_def get_default_def round_amounts_def
      common_fraud_categories_def high_risk_locations_def suspicious_words_def lower_def lower_char_def Let_def)

lemma dining_temporal: "analyze_temporal_patterns (simple_expense ''u4'' 42 ''dining'') 43380000000 = 0.2"
  by (simp add: analyze_temporal_patterns_def simple_expense_def hour_def weekday_def get_default_def
      leisure_words_def lower_def lower_char_def Let_def)

lemma generate_alerts_types:
  assumes "k \<in> al_type ` set (generate_alerts rs ed)"
  shows "\<exists>s. (k, s) \<in> set rs \<and> s \<ge> dict_get risk_thresholds k 0.6"
  using assms by (auto simp: generate_alerts_def)

subsection \<open>Overall score and risk level\<close>

lemma window_ok_mono: "window_ok eng u t \<Longrightarrow> t \<le> t' \<Longrightarrow> window_ok eng u t'"
  by (auto simp: window_ok_def list_all_iff)

lemma window_ok_run:
  assumes "window_ok eng u t0" and "sorted (t0 # map snd evs @ [now])" and "list_all (\<lambda>(ed, t). valid_event ed) evs"
  shows "window_ok (run_engine eng evs) u now"
  using assms
proof (induction evs arbitrary: eng t0)
  case Nil
  then show ?case by (simp add: window_ok_mono)
next
  case (Cons ev evs)
  obtain ed t where ev: "ev = (ed, t)" by (cases ev)
  from Cons.prems(2) have le: "t0 \<le> t" and rest: "sorted (t # map snd evs @ [now])"
    by (simp_all add: ev)
  from Cons.prems(3) have amt: "0 \<le> get_default (ed_amount ed) 0"
    by (auto simp: ev valid_event_def get_default_def split: option.splits)
  from Cons.prems(1) le have "window_ok eng u t" by (rule window_ok_mono)
  then have step: "window_ok (snd (analyze_real_time_risk eng ed t)) u t"
    using amt by (rule window_ok_analyze) simp
  from Cons.prems(3) have valid: "list_all (\<lambda>(ed, t). valid_event ed) evs"
    by simp
  have "window_ok (run_engine (snd (analyze_real_time_risk eng ed t)) evs) u now"
    using step rest valid by (rule Cons.IH)
  then show ?case by (simp add: ev)
qed

lemma window_ok_reachable:
  assumes "sorted (map snd evs @ [now])" and "list_all (\<lambda>(ed, t). valid_event ed) evs"
  shows "window_ok (run_engine (init_engine m) evs) u now"
proof (cases evs)
  case Nil
  then show ?thesis by (simp add: window_ok_init)
next
  case (Cons ev rest)
  have "window_ok (init_engine m) u (snd ev)" by (rule window_ok_init)
  moreover have "sorted (snd ev # map snd evs @ [now])"
    using assms(1) by (simp add: Cons)
  ultimately show ?thesis using assms(2) by (rule window_ok_run)
qed

lemma clustered_engine_run: "clustered_engine = run_engine (init_engine 60) three_expenses"
  by (simp add: clustered_engine_def three_expenses_def)

lemma overall_realtime_risk_on_ok_window:
  fixes amount :: real
  assumes "ed_amount ed = Some amount" and "0 < amount"
    and "window_ok eng (get_default (ed_user_id ed) ''unknown'') now"
  shows "(let v = velocity_signal eng ed now;
              p = analyze_patterns ed;
              c = coordination_signal eng ed now;
              a = detect_anomalies eng (get_default (ed_user_id ed) ''unknown'') ed;
              t = analyze_temporal_patterns ed now;
              s = analyze_amount_suspicion (get_default (ed_amount ed) 0);
              overall = (v + p + c + a + t + s) / 6;
              r = fst (analyze_real_time_risk eng ed now)
          in ra_risk_scores r =
               [(''velocity_risk'', v), (''pattern_risk'', p), (''coordination_risk'', c),
                (''anomaly_risk'', a), (''temporal_risk'', t), (''amount_suspicion'', s),
                (''overall_realtime_risk'', overall)]
             \<and> 0 \<le> overall \<and> overall \<le> 1
             \<and> ra_risk_level r =
                 (if overall \<ge> 0.8 then ''CRITICAL'' else if overall \<ge> 0.6 then ''HIGH''
                  else if overall \<ge> 0.4 then ''MEDIUM'' else if overall \<ge> 0.2 then ''LOW''
                  else ''MINIMAL''))"
proof -
  let ?u = "get_default (ed_user_id ed) ''unknown''"
  have amt: "get_default (ed_amount ed) 0 = amount"
    using assms(1) by (simp add: get_default_def)
  have v: "0 \<le> velocity_signal eng ed now" "velocity_signal eng ed now \<le> 1"
    unfolding velocity_signal_def amt
    using analyze_velocity_range [OF assms(3) [unfolded window_ok_def], of amount] assms(2) by simp_all
  note p = analyze_patterns_range [of ed]
  have c: "0.1 \<le> coordination_signal eng ed now" "coordination_signal eng ed now \<le> 0.8"
    unfolding coordination_signal_def by (rule analyze_group_coordination_range)+
  note a = detect_anomalies_range [of eng ?u ed]
  note tm = analyze_temporal_patterns_range [of ed now]
  note s = analyze_amount_suspicion_range [of "get_default (ed_amount ed) 0"]
  let ?overall = "(velocity_signal eng ed now + analyze_patterns ed + coordination_signal eng ed now
      + detect_anomalies eng ?u ed + analyze_temporal_patterns ed now
      + analyze_amount_suspicion (get_default (ed_amount ed) 0)) / 6"
  have lo: "0 \<le> ?overall" using v p c a tm s by simp
  have hi: "?overall \<le> 1" using v p c a tm s by simp
  have lvl: "ra_risk_level (fst (analyze_real_time_risk eng ed now)) = categorize_risk ?overall"
    by (rule ra_risk_level_analyze)
  show ?thesis
    unfolding Let_def using lo hi lvl ra_risk_scores_explicit [of eng ed now]
    by (simp only: categorize_risk_def simp_thms)
qed

lemma noon_velocities: "user_velocities engine_at_noon ''u1'' = [(43200000000, 10000)]"
  by (simp add: engine_at_noon_def large_expense_def user_velocities_analyze init_engine_def
      minutes_def simple_expense_def get_default_def deque_append_def)

lemma noon_group: "group_activities engine_at_noon ''g1'' = [(43200000000, large_expense)]"
  by (simp add: engine_at_noon_def group_activities_analyze init_engine_def
      minutes_def deque_append_def)
     (simp add: large_expense_def simple_expense_def get_default_def)

lemma noon_window: "monitoring_window engine_at_noon = 3600000000"
  by (simp add: engine_at_noon_def monitoring_window_analyze init_engine_def minutes_def)

lemma noon_history:
  "map re_details (filter (\<lambda>e. re_user_id e = ''u1'') (recent_events engine_at_noon)) = [large_expense]"
  by (simp add: engine_at_noon_def snd_analyze_real_time_risk store_event_def deque_append_def
      snd_signal_scores recent_events_analyze_group_coordination recent_events_analyze_velocity
      init_engine_def)
     (simp add: large_expense_def simple_expense_def get_default_def)

lemma back_velocity: "velocity_signal engine_at_noon large_expense 39600000000 = - 9.95"
  by (simp add: velocity_signal_def analyze_velocity_def noon_velocities noon_window
      large_expense_def simple_expense_def get_default_def deque_append_def total_seconds_def Let_def)

lemma back_coordination: "coordination_signal engine_at_noon large_expense 39600000000 = 0.8"
proof -
  let ?v = "snd (analyze_velocity engine_at_noon ''u1'' 10000 39600000000)"
  have g: "group_activities ?v ''g1'' = [(43200000000, large_expense)]"
    by (simp add: group_activities_analyze_velocity noon_group)
  have w: "monitoring_window ?v = 3600000000"
    by (simp add: monitoring_window_analyze_velocity noon_window)
  have "fst (analyze_group_coordination ?v ''g1'' large_expense 39600000000) = 0.8"
    unfolding analyze_group_coordination_def g w
    by (simp add: deque_append_def last_n_def Let_def)
  then show ?thesis
    by (simp add: coordination_signal_def large_expense_def simple_expense_def get_default_def)
qed

lemma back_anomaly: "detect_anomalies engine_at_noon ''u1'' large_expense = 0"
  unfolding detect_anomalies_def noon_history
  by (simp add: last_n_def np_mean_def Let_def)

lemma large_pattern: "analyze_patterns large_expense = 0"
  by (simp add: analyze_patterns_def large_expense_def simple_expense_def get_default_def round_amounts_def
      common_fraud_categories_def high_risk_locations_def suspicious_words_def lower_def lower_char_def Let_def)

lemma large_temporal: "analyze_temporal_patterns large_expense 39600000000 = 0"
  by (simp add: analyze_temporal_patterns_def large_expense_def simple_expense_def hour_def weekday_def
      get_default_def leisure_words_def lower_def lower_char_def Let_def)

lemma large_amount: "analyze_amount_suspicion 10000 = 0.3"
  by (simp add: analyze_amount_suspicion_def py_fmod_def)

text \<open>
  Claim C4, as stated, fails when the wall clock steps back: a new engine analyses a valid
  expense of 10000 at 12:00 and the same valid expense again when the clock reads 11:00. The
  window then spans minus one hour, the velocity signal is -9.95, and the overall score, still
  the mean of the six signals, is -1.475.
\<close>

theorem overall_risk_negative_when_clock_steps_back:
  "valid_event large_expense
   \<and> engine_at_noon = snd (analyze_real_time_risk (init_engine 60) large_expense 43200000000)
   \<and> ra_risk_scores (fst (analyze_real_time_risk engine_at_noon large_expense 39600000000)) =
       [(''velocity_risk'', - 9.95), (''pattern_risk'', 0), (''coordination_risk'', 0.8),
        (''anomaly_risk'', 0), (''temporal_risk'', 0), (''amount_suspicion'', 0.3),
        (''overall_realtime_risk'', - 1.475)]
   \<and> (- 1.475 :: real) < 0"
proof -
  have u: "get_default (ed_user_id large_expense) ''unknown'' = ''u1''"
    and a: "get_default (ed_amount large_expense) 0 = 10000"
    by (simp_all add: large_expense_def simple_expense_def get_default_def)
  have "valid_event large_expense"
    by (simp add: valid_event_def large_expense_def simple_expense_def)
  moreover have "engine_at_noon = snd (analyze_real_time_risk (init_engine 60) large_expense 43200000000)"
    by (simp add: engine_at_noon_def)
  moreover have "ra_risk_scores (fst (analyze_real_time_risk engine_at_noon large_expense 39600000000)) =
       [(''velocity_risk'', - 9.95), (''pattern_risk'', 0), (''coordination_risk'', 0.8),
        (''anomaly_risk'', 0), (''temporal_risk'', 0), (''amount_suspicion'', 0.3),
        (''overall_realtime_risk'', - 1.475)]"
    unfolding ra_risk_scores_explicit u a back_velocity back_coordination back_anomaly
      large_pattern large_temporal large_amount
    by simp
  ultimately show ?thesis by simp
qed

text \<open>
  Claim C4, amended. Take any engine reached from a new one by analysing valid events at clock
  readings that never go back, and analyse a valid event on it at a reading that is not earlier.
  The analysis returns the six signals the engine computes (velocity, pattern, coordination,
  anomaly, temporal, amount suspicion) and, as overall real-time risk, their arithmetic mean; the
  overall risk lies between 0 and 1; and the risk level is CRITICAL from 0.8, HIGH from 0.6,
  MEDIUM from 0.4, LOW from 0.2 and MINIMAL below.
\<close>

theorem overall_realtime_risk_mean_range_level:
  assumes "list_all (\<lambda>(ed, t). valid_event ed) evs" and "sorted (map snd evs @ [now])"
    and "valid_event ed"
  shows "(let eng = run_engine (init_engine m) evs;
              v = velocity_signal eng ed now;
              p = analyze_patterns ed;
              c = coordination_signal eng ed now;
              a = detect_anomalies eng (get_default (ed_user_id ed) ''unknown'') ed;
              t = analyze_temporal_patterns ed now;
              s = analyze_amount_suspicion (get_default (ed_amount ed) 0);
              overall = (v + p + c + a + t + s) / 6;
              r = fst (analyze_real_time_risk eng ed now)
          in ra_risk_scores r =
               [(''velocity_risk'', v), (''pattern_risk'', p), (''coordination_risk'', c),
                (''anomaly_risk'', a), (''temporal_risk'', t), (''amount_suspicion'', s),
                (''overall_realtime_risk'', overall)]
             \<and> 0 \<le> overall \<and> overall \<le> 1
             \<and> ra_risk_level r =
                 (if overall \<ge> 0.8 then ''CRITICAL'' else if overall \<ge> 0.6 then ''HIGH''
                  else if overall \<ge> 0.4 then ''MEDIUM'' else if overall \<ge> 0.2 then ''LOW''
                  else ''MINIMAL''))"
proof -
  from assms(3) obtain amount where amount: "ed_amount ed = Some amount" "0 < amount"
    by (auto simp: valid_event_def split: option.splits)
  have "window_ok (run_engine (init_engine m) evs) (get_default (ed_user_id ed) ''unknown'') now"
    using assms(2,1) by (rule window_ok_reachable)
  with amount have "(let v = velocity_signal (run_engine (init_engine m) evs) ed now;
              p = analyze_patterns ed;
              c = coordination_signal (run_engine (init_engine m) evs) ed now;
              a = detect_anomalies (run_engine (init_engine m) evs) (get_default (ed_user_id ed) ''unknown'') ed;
              t = analyze_temporal_patterns ed now;
              s = analyze_amount_suspicion (get_default (ed_amount ed) 0);
              overall = (v + p + c + a + t + s) / 6;
              r = fst (analyze_real_time_risk (run_engine (init_engine m) evs) ed now)
          in ra_risk_scores r =
               [(''velocity_risk'', v), (''pattern_risk'', p), (''coordination_risk'', c),
                (''anomaly_risk'', a), (''temporal_risk'', t), (''amount_suspicion'', s),
                (''overall_realtime_risk'', overall)]
             \<and> 0 \<le> overall \<and> overall \<le> 1
             \<and> ra_risk_level r =
                 (if overall \<ge> 0.8 then ''CRITICAL'' else if overall \<ge> 0.6 then ''HIGH''
                  else if overall \<ge> 0.4 then ''MEDIUM'' else if overall \<ge> 0.2 then ''LOW''
                  else ''MINIMAL''))"
    by (rule overall_realtime_risk_on_ok_window)
  then show ?thesis by (simp only: Let_def)
qed

theorem overall_realtime_risk_witness:
  "list_all (\<lambda>(ed, t). valid_event ed) three_expenses \<and> sorted (map snd three_expenses @ [43380000000])
   \<and> valid_event (simple_expense ''u4'' 42 ''dining'')
   \<and> run_engine (init_engine 60) three_expenses = clustered_engine
   \<and> ra_risk_scores (fst (analyze_real_time_risk clustered_engine (simple_expense ''u4'' 42 ''dining'') 43380000000)) =
       [(''velocity_risk'', 0.1), (''pattern_risk'', 0), (''coordination_risk'', 0.7),
        (''anomaly_risk'', 0.3), (''temporal_risk'', 0.2), (''amount_suspicion'', 0.1),
        (''overall_realtime_risk'', 7 / 30)]
   \<and> ra_risk_level (fst (analyze_real_time_risk clustered_engine (simple_expense ''u4'' 42 ''dining'') 43380000000))
       = ''LOW''"
proof -
  have h1: "list_all (\<lambda>(ed, t). valid_event ed) three_expenses"
    by (simp add: three_expenses_def valid_event_def simple_expense_def)
  have h2: "sorted (map snd three_expenses @ [43380000000])"
    by (simp add: three_expenses_def)
  have h3: "valid_event (simple_expense ''u4'' 42 ''dining'')"
    by (simp add: valid_event_def simple_expense_def)
  have u: "get_default (ed_user_id (simple_expense ''u4'' 42 ''dining'')) ''unknown'' = ''u4''"
    and a: "get_default (ed_amount (simple_expense ''u4'' 42 ''dining'')) 0 = 42"
    by (simp_all add: simple_expense_def get_default_def)
  note run = clustered_engine_run [symmetric]
  from overall_realtime_risk_mean_range_level [OF h1 h2 h3, of 60]
  have "ra_risk_scores (fst (analyze_real_time_risk clustered_engine (simple_expense ''u4'' 42 ''dining'') 43380000000)) =
       [(''velocity_risk'', 0.1), (''pattern_risk'', 0), (''coordination_risk'', 0.7),
        (''anomaly_risk'', 0.3), (''temporal_risk'', 0.2), (''amount_suspicion'', 0.1),
        (''overall_realtime_risk'', 7 / 30)]
     \<and> ra_risk_level (fst (analyze_real_time_risk clustered_engine (simple_expense ''u4'' 42 ''dining'') 43380000000))
       = ''LOW''"
    unfolding Let_def run u a dining_velocity_signal dining_coordination_signal
      dining_anomaly dining_pattern dining_temporal misc_amount
    by simp
  with h1 h2 h3 run show ?thesis by simp
qed

subsection \<open>Alert candidates\<close>

text \<open>
  Claim C5. The claim gives the coordination signal the threshold 0.75, the engine's own table
  \<open>risk_thresholds\<close> does too (under the key \<open>group_coordination\<close>), yet the lookup is made with
  the key of the score, \<open>coordination_risk\<close>, which the table does not hold, so the default 0.6
  decides. The fourth expense of a group within three minutes, with amounts and categories all
  different, has coordination signal 0.7 and raises a coordination alert.
\<close>

theorem coordination_alert_raised_below_its_threshold:
  "dict_get risk_thresholds ''group_coordination'' 0 = 0.75
   \<and> map (\<lambda>a. (al_type a, al_severity a, al_score a))
        (ra_alerts (fst (analyze_real_time_risk clustered_engine (simple_expense ''u4'' 42 ''misc'') 43380000000)))
     = [(''coordination_risk'', ''MEDIUM'', 0.7)]"
proof -
  have u: "get_default (ed_user_id (simple_expense ''u4'' 42 ''misc'')) ''unknown'' = ''u4''"
    and a: "get_default (ed_amount (simple_expense ''u4'' 42 ''misc'')) 0 = 42"
    by (simp_all add: simple_expense_def get_default_def)
  have scores: "fst (signal_scores clustered_engine (simple_expense ''u4'' 42 ''misc'') 43380000000) =
     [(''velocity_risk'', 0.1), (''pattern_risk'', 0), (''coordination_risk'', 0.7),
      (''anomaly_risk'', 0.3), (''temporal_risk'', 0), (''amount_suspicion'', 0.1)]"
    unfolding fst_signal_scores u a clustered_velocity_signal clustered_coordination_signal
      clustered_anomaly misc_pattern misc_temporal misc_amount
    by (rule refl)
  show ?thesis
    unfolding ra_alerts_analyze ra_risk_scores_analyze scores
    by (simp add: generate_alerts_def risk_thresholds_def dict_get_def np_mean_def)
qed

subsection \<open>The amount-suspicion signal\<close>

text \<open>
  Claim C6, as stated, fails: the amount 100 is a round number and scores 0.3, the larger
  amount 150 scores 0.1.
\<close>

theorem amount_suspicion_not_monotone:
  "(100::real) < 150 \<and> analyze_amount_suspicion 150 < analyze_amount_suspicion 100"
  by (simp add: analyze_amount_suspicion_def py_fmod_def suspicious_thresholds_def)

text \<open>
  Claim C6, amended. Among the amounts that no special case picks out (not a multiple of 100
  from 100 on, not within 50 below 999, 1999, 2999, 4999 or 9999, and above 1), the
  amount-suspicion signal is non-decreasing in the amount.
\<close>

theorem amount_suspicion_monotone_on_plain_amounts:
  assumes "plain_amount a1" and "plain_amount a2" and "a1 < a2"
  shows "analyze_amount_suspicion a1 \<le> analyze_amount_suspicion a2"
proof -
  have val: "analyze_amount_suspicion a = (if a > 10000 then 0.6 else if a > 5000 then 0.4 else 0.1)"
    if "plain_amount a" for a
    using that by (auto simp: plain_amount_def analyze_amount_suspicion_def)
  from assms show ?thesis by (simp add: val)
qed

theorem amount_suspicion_monotone_witness:
  "plain_amount 50 \<and> plain_amount 6001 \<and> (50::real) < 6001
   \<and> analyze_amount_suspicion 50 \<le> analyze_amount_suspicion 6001"
proof -
  have h1: "plain_amount 50" and h2: "plain_amount 6001"
    by (simp_all add: plain_amount_def py_fmod_def suspicious_thresholds_def)
  have h3: "(50::real) < 6001" by simp
  from amount_suspicion_monotone_on_plain_amounts [OF h1 h2 h3] h1 h2 h3 show ?thesis
    by (intro conjI)
qed

subsection \<open>Dependence on the clock\<close>

text \<open>
  Claim C8, as stated, fails: the same expense analysed on the same engine state gives one
  analysis at noon and another at three in the morning, because the engine reads the wall clock
  and the temporal signal is computed from the reading.
\<close>

theorem analysis_depends_on_clock:
  "fst (analyze_real_time_risk (init_engine 60) (simple_expense ''u1'' 42 ''food'') 43200000000)
   \<noteq> fst (analyze_real_time_risk (init_engine 60) (simple_expense ''u1'' 42 ''food'') 10800000000)"
proof
  assume "fst (analyze_real_time_risk (init_engine 60) (simple_expense ''u1'' 42 ''food'') 43200000000)
          = fst (analyze_real_time_risk (init_engine 60) (simple_expense ''u1'' 42 ''food'') 10800000000)"
  then have "score_of (fst (analyze_real_time_risk (init_engine 60) (simple_expense ''u1'' 42 ''food'') 43200000000))
               ''temporal_risk''
             = score_of (fst (analyze_real_time_risk (init_engine 60) (simple_expense ''u1'' 42 ''food'') 10800000000))
               ''temporal_risk''"
    by simp
  then show False
    by (simp add: score_of_analyze food_temporal_noon food_temporal_night)
qed

text \<open>
  Claim C8, amended. For one event and one engine state, the pattern, anomaly and amount-suspicion
  signals are the same whatever the clock reads, and the temporal signal is the same for two
  readings of the clock with the same hour and the same day of the week.
\<close>

theorem signals_and_the_clock:
  "score_of (fst (analyze_real_time_risk eng ed t1)) ''pattern_risk''
     = score_of (fst (analyze_real_time_risk eng ed t2)) ''pattern_risk''
   \<and> score_of (fst (analyze_real_time_risk eng ed t1)) ''anomaly_risk''
     = score_of (fst (analyze_real_time_risk eng ed t2)) ''anomaly_risk''
   \<and> score_of (fst (analyze_real_time_risk eng ed t1)) ''amount_suspicion''
     = score_of (fst (analyze_real_time_risk eng ed t2)) ''amount_suspicion''
   \<and> (hour t1 = hour t2 \<and> weekday t1 = weekday t2 \<longrightarrow>
        score_of (fst (analyze_real_time_risk eng ed t1)) ''temporal_risk''
        = score_of (fst (analyze_real_time_risk eng ed t2)) ''temporal_risk'')"
  by (simp add: score_of_analyze analyze_temporal_patterns_def)

theorem signals_and_the_clock_witness:
  "hour 43200000000 = hour 648000000000 \<and> weekday 43200000000 = weekday 648000000000
   \<and> score_of (fst (analyze_real_time_risk (init_engine 60) (simple_expense ''u1'' 42 ''food'') 43200000000))
       ''temporal_risk''
     = score_of (fst (analyze_real_time_risk (init_engine 60) (simple_expense ''u1'' 42 ''food'') 648000000000))
       ''temporal_risk''"
proof -
  have h: "hour 43200000000 = hour 648000000000 \<and> weekday 43200000000 = weekday 648000000000"
    by (simp add: hour_def weekday_def)
  with signals_and_the_clock [of "init_engine 60" "simple_expense ''u1'' 42 ''food''" 43200000000 648000000000]
  show ?thesis by blast
qed

subsection \<open>The pattern signal\<close>

text \<open>
  Claim C10. Whatever the expense data, the pattern signal is at most 0.3 (the four indicator
  weights add up to 1.2 and are divided by the four indicators checked), and no analysis
  returns an alert candidate of type \<open>pattern_risk\<close>.
\<close>

theorem pattern_signal_never_alerts:
  "analyze_patterns ed \<le> 0.3
   \<and> score_of (fst (analyze_real_time_risk eng ed now)) ''pattern_risk'' = Some (analyze_patterns ed)
   \<and> ''pattern_risk'' \<notin> al_type ` set (ra_alerts (fst (analyze_real_time_risk eng ed now)))"
proof -
  have le: "analyze_patterns ed \<le> 0.3" by (rule analyze_patterns_range)
  have "False" if "''pattern_risk'' \<in> al_type ` set (ra_alerts (fst (analyze_real_time_risk eng ed now)))"
  proof -
    from generate_alerts_types [OF that [unfolded ra_alerts_analyze]] obtain s where
      s: "(''pattern_risk'', s) \<in> set (ra_risk_scores (fst (analyze_real_time_risk eng ed now)))"
      and ge: "s \<ge> dict_get risk_thresholds ''pattern_risk'' 0.6"
      by blast
    from s have "s = analyze_patterns ed"
      by (simp add: ra_risk_scores_analyze fst_signal_scores)
    moreover from ge have "0.6 \<le> s"
      by (simp add: dict_get_def risk_thresholds_def)
    ultimately show False using le by simp
  qed
  with le show ?thesis
    by (auto simp: score_of_analyze)
qed


section \<open>Schema and rule engine: facts\<close>

lemma validate_participants_amount_no_amount:
  "values ''amount'' = None \<Longrightarrow> validate_participants_amount v values = Inr v"
  by (simp add: validate_participants_amount_def)

lemma ExpenseIn_validate_accepts:
  assumes "e_participants raw \<noteq> []" and "list_all (\<lambda>p. 0 < p_amount p) (e_participants raw)"
    and "0 < e_amount raw" and "e_amount raw \<le> 1000000"
    and "length (e_currency raw) = 3" and "isupper (e_currency raw)"
    and "e_timestamp raw \<noteq> BadIso"
  shows "ExpenseIn_validate raw = Inr raw"
proof -
  have p: "validate_participants_amount (e_participants raw)
             [''expense_id'' \<mapsto> Str (e_expense_id raw), ''group_id'' \<mapsto> Str (e_group_id raw),
              ''payer_id'' \<mapsto> Str (e_payer_id raw)] = Inr (e_participants raw)"
    by (rule validate_participants_amount_no_amount) simp
  have t: "validate_timestamp (e_timestamp raw) = Inr (e_timestamp raw)"
    using assms(7) by (cases "e_timestamp raw") (simp_all add: validate_timestamp_def)
  show ?thesis
    unfolding ExpenseIn_validate_def Let_def p t
    using assms by (simp add: validate_currency_def)
qed

lemma check_excessive_amount_returns:
  assumes "0 < amount_multiplier_threshold eng"
  shows "\<exists>vs. check_excessive_amount eng feats = Inr vs"
proof -
  have "0 \<le> min 0.9 (a / (amount_multiplier_threshold eng * 2))
        \<and> min 0.9 (a / (amount_multiplier_threshold eng * 2)) \<le> 1"
    if "a > amount_multiplier_threshold eng" for a :: real
  proof -
    from that assms have "0 < a" by simp
    with assms have "0 \<le> a / (amount_multiplier_threshold eng * 2)" by simp
    then show ?thesis by (simp add: min_le_iff_disj)
  qed
  with assms show ?thesis
    by (simp add: check_excessive_amount_def new_RuleViolation_def Let_def)
qed

lemma mismatch_in_check_rules:
  assumes "0 < amount_multiplier_threshold eng"
    and "\<bar>sum_list (map p_amount (e_participants expense)) - e_amount expense\<bar> > 0.01"
  shows "\<lparr>rule_name = ''amount_mismatch'', severity = ''high'', confidence = 0.95\<rparr>
           \<in> set (check_rules eng sd utcnow expense feats hist)"
proof -
  from check_excessive_amount_returns [OF assms(1)] obtain vs where "check_excessive_amount eng feats = Inr vs"
    by blast
  with assms(2) show ?thesis
    by (simp add: check_rules_def check_participant_mismatch_def Let_def)
qed

lemma mismatched_rules:
  "check_rules default_RuleEngine (\<lambda>_. 1) 1701455400000000 mismatched_expense Map.empty []
     = [\<lparr>rule_name = ''amount_mismatch'', severity = ''high'', confidence = 0.95\<rparr>]"
  by (simp add: check_rules_def check_excessive_amount_def check_participant_mismatch_def
      check_blacklisted_entities_def check_time_patterns_def check_participant_count_def
      check_payer_participation_def check_amount_precision_def default_RuleEngine_def
      mismatched_expense_def get_default_def hour_def minutes_def lower_def lower_char_def Let_def)

lemma mismatched_rule_score:
  "calculate_rule_score (check_rules default_RuleEngine (\<lambda>_. 1) 1701455400000000 mismatched_expense Map.empty [])
     = 0.95"
  unfolding mismatched_rules
  by (simp add: calculate_rule_score_def severity_weights_def dict_get_def)

section \<open>Ensemble model: facts\<close>

lemma map_fst_predict_single:
  "map fst (predict_single ens sd utcnow expense feats fv hist) = result_keys"
  by (simp add: predict_single_def result_keys_def Let_def split: sum.splits prod.splits)

lemma failing_model_fails:
  "ml_predict (default_EnsembleModel (Some failing_model) default_RuleEngine) fv = Inl ProviderError"
  by (simp add: ml_predict_def default_EnsembleModel_def failing_model_def)

lemma constant_model_predicts:
  "ml_predict (default_EnsembleModel (Some (constant_model p)) default_RuleEngine) fv = Inr (p, [])"
  by (simp add: ml_predict_def default_EnsembleModel_def constant_model_def)

text \<open>
  Claim C2, as stated, fails in its second half: when the anomaly model raises, the verdict
  returned for a valid expense has neither a \<open>degraded\<close> key nor a \<open>warnings\<close> key.
\<close>

theorem failure_is_not_flagged_degraded:
  "ml_predict (default_EnsembleModel (Some failing_model) default_RuleEngine) [] = Inl ProviderError
   \<and> map_of (predict_single (default_EnsembleModel (Some failing_model) default_RuleEngine) (\<lambda>_. 1)
               1701455400000000 valid_expense Map.empty [] []) ''degraded'' = None
   \<and> map_of (predict_single (default_EnsembleModel (Some failing_model) default_RuleEngine) (\<lambda>_. 1)
               1701455400000000 valid_expense Map.empty [] []) ''warnings'' = None"
  by (simp add: failing_model_fails predict_single_def)

text \<open>
  Claim C2, amended. For every expense, \<open>predict_single\<close> returns a verdict, a dictionary with
  the keys \<open>anomaly_score\<close>, \<open>is_suspicious\<close>, \<open>ml_score\<close>, \<open>rule_score\<close>,
  \<open>rule_violations\<close>, \<open>explanation\<close> and \<open>model_version\<close>; when a call of the anomaly model
  raises, the verdict is the fixed default: scores 0, not suspicious, no violations, no
  explanation, model version \<open>error\<close>.
\<close>

theorem predict_single_always_returns:
  "map fst (predict_single ens sd utcnow expense feats fv hist) = result_keys
   \<and> (\<forall>err. ml_predict ens fv = Inl err \<longrightarrow>
         predict_single ens sd utcnow expense feats fv hist = safe_default)"
proof (intro conjI allI impI)
  show "map fst (predict_single ens sd utcnow expense feats fv hist) = result_keys"
    by (rule map_fst_predict_single)
next
  fix err assume "ml_predict ens fv = Inl err"
  then show "predict_single ens sd utcnow expense feats fv hist = safe_default"
    by (simp add: predict_single_def safe_default_def)
qed

theorem predict_single_always_returns_witness:
  "ml_predict (default_EnsembleModel (Some failing_model) default_RuleEngine) [] = Inl ProviderError
   \<and> predict_single (default_EnsembleModel (Some failing_model) default_RuleEngine) (\<lambda>_. 1)
        1701455400000000 valid_expense Map.empty [] [] = safe_default"
proof -
  have f: "ml_predict (default_EnsembleModel (Some failing_model) default_RuleEngine) [] = Inl ProviderError"
    by (rule failing_model_fails)
  with predict_single_always_returns [of "default_EnsembleModel (Some failing_model) default_RuleEngine"
      "\<lambda>_. 1" 1701455400000000 valid_expense Map.empty "[]" "[]"]
  show ?thesis by blast
qed

text \<open>
  Claim C3. When the anomaly model answers with score \<open>ml\<close> and the rules score \<open>rs\<close>, the
  verdict's anomaly score is \<open>ml_weight * ml + rule_weight * rs\<close>, multiplied by 1.1 and capped
  at 1 when both \<open>ml\<close> and \<open>rs\<close> exceed 0.5, and the verdict is suspicious exactly when that
  score is at least the suspicion threshold; the default weights are 0.7 and 0.3 and the default
  threshold is 0.6.
\<close>

theorem fused_score_and_suspicion:
  assumes "ml_predict ens fv = Inr (ml, expl)"
    and "calculate_rule_score (check_rules (rule_engine ens) sd utcnow expense feats hist) = rs"
  shows "(let result = predict_single ens sd utcnow expense feats fv hist;
              fused = (if ml > 0.5 \<and> rs > 0.5
                       then min 1 ((ml_weight ens * ml + rule_weight ens * rs) * 1.1)
                       else ml_weight ens * ml + rule_weight ens * rs)
          in map_of result ''ml_score'' = Some (PFloat ml)
             \<and> map_of result ''rule_score'' = Some (PFloat rs)
             \<and> map_of result ''anomaly_score'' = Some (PFloat fused)
             \<and> map_of result ''is_suspicious'' = Some (PBool (fused \<ge> suspicion_threshold ens)))
         \<and> ml_weight (default_EnsembleModel m eng) = 0.7
         \<and> rule_weight (default_EnsembleModel m eng) = 0.3
         \<and> suspicion_threshold (default_EnsembleModel m eng) = 0.6"
  using assms
  by (simp add: predict_single_def combine_scores_def default_EnsembleModel_def Let_def)

theorem fused_score_witness:
  "ml_predict (default_EnsembleModel (Some (constant_model 0.8)) default_RuleEngine) [] = Inr (0.8, [])
   \<and> calculate_rule_score
       (check_rules (rule_engine (default_EnsembleModel (Some (constant_model 0.8)) default_RuleEngine))
          (\<lambda>_. 1) 1701455400000000 mismatched_expense Map.empty []) = 0.95
   \<and> map_of (predict_single (default_EnsembleModel (Some (constant_model 0.8)) default_RuleEngine) (\<lambda>_. 1)
               1701455400000000 mismatched_expense Map.empty [] []) ''anomaly_score'' = Some (PFloat 0.9295)
   \<and> map_of (predict_single (default_EnsembleModel (Some (constant_model 0.8)) default_RuleEngine) (\<lambda>_. 1)
               1701455400000000 mismatched_expense Map.empty [] []) ''is_suspicious'' = Some (PBool True)"
proof -
  let ?ens = "default_EnsembleModel (Some (constant_model 0.8)) default_RuleEngine"
  have h1: "ml_predict ?ens [] = Inr (0.8, [])"
    by (rule constant_model_predicts)
  have h2: "calculate_rule_score
       (check_rules (rule_engine ?ens) (\<lambda>_. 1) 1701455400000000 mismatched_expense Map.empty []) = 0.95"
    using mismatched_rule_score by (simp add: default_EnsembleModel_def)
  have w: "ml_weight ?ens = 0.7" "rule_weight ?ens = 0.3" "suspicion_threshold ?ens = 0.6"
    by (simp_all add: default_EnsembleModel_def)
  from fused_score_and_suspicion [OF h1 h2] h1 h2 show ?thesis
    unfolding Let_def w by simp
qed

subsection \<open>Mismatching amounts, from the schema to the verdict\<close>

text \<open>
  Claim C1, as stated, fails: the schema accepts the expense whose shares of 20 and 20 stand
  against a total of 50, but when the anomaly model raises, the verdict returned for it holds no
  violation at all; and a rule engine whose amount threshold is 0 returns no violation for it
  either, because its first rule raises and the handler of \<open>check_rules\<close> returns the empty
  list.
\<close>

theorem mismatch_lost_on_failure_paths:
  "ExpenseIn_validate mismatched_expense = Inr mismatched_expense
   \<and> \<bar>sum_list (map p_amount (e_participants mismatched_expense)) - e_amount mismatched_expense\<bar> > 0.01
   \<and> map_of (predict_single (default_EnsembleModel (Some failing_model) default_RuleEngine) (\<lambda>_. 1)
               1701455400000000 mismatched_expense Map.empty [] []) ''rule_violations'' = Some (PViolations [])
   \<and> check_rules (default_RuleEngine\<lparr>amount_multiplier_threshold := 0\<rparr>) (\<lambda>_. 1)
        1701455400000000 mismatched_expense Map.empty [] = []"
proof -
  have "ExpenseIn_validate mismatched_expense = Inr mismatched_expense"
    by (rule ExpenseIn_validate_accepts) (simp_all add: mismatched_expense_def isupper_def)
  moreover have "\<bar>sum_list (map p_amount (e_participants mismatched_expense)) - e_amount mismatched_expense\<bar> > 0.01"
    by (simp add: mismatched_expense_def)
  moreover have "map_of (predict_single (default_EnsembleModel (Some failing_model) default_RuleEngine) (\<lambda>_. 1)
               1701455400000000 mismatched_expense Map.empty [] []) ''rule_violations'' = Some (PViolations [])"
    by (simp add: failing_model_fails predict_single_def)
  moreover have "check_rules (default_RuleEngine\<lparr>amount_multiplier_threshold := 0\<rparr>) (\<lambda>_. 1)
        1701455400000000 mismatched_expense Map.empty [] = []"
    by (simp add: check_rules_def check_excessive_amount_def default_RuleEngine_def get_default_def Let_def)
  ultimately show ?thesis by blast
qed

text \<open>
  Claim C1, amended. An expense that meets every constraint of the schema and whose participant
  amounts differ from the total by more than 0.01 is accepted by the schema (the validator of
  \<open>participants\<close> runs before \<open>amount\<close> is validated, finds no \<open>amount\<close> among the values
  and returns); and when the anomaly model answers and the rule engine's amount threshold is
  positive, the verdict of \<open>predict_single\<close> for it carries the rule engine's violations, among
  them \<open>amount_mismatch\<close> with severity high and confidence 0.95.
\<close>

theorem amount_mismatch_scored_when_model_answers:
  assumes "e_participants raw \<noteq> []" and "list_all (\<lambda>p. 0 < p_amount p) (e_participants raw)"
    and "0 < e_amount raw" and "e_amount raw \<le> 1000000"
    and "length (e_currency raw) = 3" and "isupper (e_currency raw)"
    and "e_timestamp raw \<noteq> BadIso"
    and "\<bar>sum_list (map p_amount (e_participants raw)) - e_amount raw\<bar> > 0.01"
    and "0 < amount_multiplier_threshold (rule_engine ens)"
    and "ml_predict ens fv = Inr (ml, expl)"
  shows "ExpenseIn_validate raw = Inr raw
         \<and> map_of (predict_single ens sd utcnow raw feats fv hist) ''rule_violations''
             = Some (PViolations (check_rules (rule_engine ens) sd utcnow raw feats hist))
         \<and> \<lparr>rule_name = ''amount_mismatch'', severity = ''high'', confidence = 0.95\<rparr>
             \<in> set (check_rules (rule_engine ens) sd utcnow raw feats hist)
         \<and> confidence \<lparr>rule_name = ''amount_mismatch'', severity = ''high'', confidence = 0.95\<rparr> \<ge> 0.9"
proof -
  have "ExpenseIn_validate raw = Inr raw"
    using assms(1-7) by (rule ExpenseIn_validate_accepts)
  moreover have "map_of (predict_single ens sd utcnow raw feats fv hist) ''rule_violations''
             = Some (PViolations (check_rules (rule_engine ens) sd utcnow raw feats hist))"
    using assms(10) by (simp add: predict_single_def Let_def)
  moreover have "\<lparr>rule_name = ''amount_mismatch'', severity = ''high'', confidence = 0.95\<rparr>
           \<in> set (check_rules (rule_engine ens) sd utcnow raw feats hist)"
    using assms(9,8) by (rule mismatch_in_check_rules)
  ultimately show ?thesis by simp
qed

theorem amount_mismatch_witness:
  "e_participants mismatched_expense \<noteq> [] \<and> list_all (\<lambda>p. 0 < p_amount p) (e_participants mismatched_expense)
   \<and> 0 < e_amount mismatched_expense \<and> e_amount mismatched_expense \<le> 1000000
   \<and> length (e_currency mismatched_expense) = 3 \<and> isupper (e_currency mismatched_expense)
   \<and> e_timestamp mismatched_expense \<noteq> BadIso
   \<and> \<bar>sum_list (map p_amount (e_participants mismatched_expense)) - e_amount mismatched_expense\<bar> > 0.01
   \<and> 0 < amount_multiplier_threshold (rule_engine (default_EnsembleModel (Some (constant_model 0.8)) default_RuleEngine))
   \<and> ml_predict (default_EnsembleModel (Some (constant_model 0.8)) default_RuleEngine) [] = Inr (0.8, [])
   \<and> ExpenseIn_validate mismatched_expense = Inr mismatched_expense
   \<and> map_of (predict_single (default_EnsembleModel (Some (constant_model 0.8)) default_RuleEngine) (\<lambda>_. 1)
               1701455400000000 mismatched_expense Map.empty [] []) ''rule_violations''
       = Some (PViolations [\<lparr>rule_name = ''amount_mismatch'', severity = ''high'', confidence = 0.95\<rparr>])"
proof -
  let ?ens = "default_EnsembleModel (Some (constant_model 0.8)) default_RuleEngine"
  have h1: "e_participants mismatched_expense \<noteq> []"
    and h2: "list_all (\<lambda>p. 0 < p_amount p) (e_participants mismatched_expense)"
    and h3: "0 < e_amount mismatched_expense" and h4: "e_amount mismatched_expense \<le> 1000000"
    and h5: "length (e_currency mismatched_expense) = 3" and h6: "isupper (e_currency mismatched_expense)"
    and h7: "e_timestamp mismatched_expense \<noteq> BadIso"
    and h8: "\<bar>sum_list (map p_amount (e_participants mismatched_expense)) - e_amount mismatched_expense\<bar> > 0.01"
    by (simp_all add: mismatched_expense_def isupper_def)
  have h9: "0 < amount_multiplier_threshold (rule_engine ?ens)"
    by (simp add: default_EnsembleModel_def default_RuleEngine_def)
  have h10: "ml_predict ?ens [] = Inr (0.8, [])"
    by (rule constant_model_predicts)
  have rules: "check_rules (rule_engine ?ens) (\<lambda>_. 1) 1701455400000000 mismatched_expense Map.empty []
          = [\<lparr>rule_name = ''amount_mismatch'', severity = ''high'', confidence = 0.95\<rparr>]"
    using mismatched_rules by (simp add: default_EnsembleModel_def)
  from amount_mismatch_scored_when_model_answers [OF h1 h2 h3 h4 h5 h6 h7 h8 h9 h10,
      of "\<lambda>_. 1" 1701455400000000 Map.empty "[]"]
  have "ExpenseIn_validate mismatched_expense = Inr mismatched_expense
        \<and> map_of (predict_single ?ens (\<lambda>_. 1) 1701455400000000 mismatched_expense Map.empty [] [])
             ''rule_violations''
           = Some (PViolations [\<lparr>rule_name = ''amount_mismatch'', severity = ''high'', confidence = 0.95\<rparr>])"
    unfolding rules by simp
  with h1 h2 h3 h4 h5 h6 h7 h8 h9 h10 show ?thesis
    by (intro conjI) simp_all
qed

section \<open>Behavioural profiles: facts\<close>

lemma update_user_profile_mean:
  assumes "total_expenses p = length xs" and "avg_amount p * real (length xs) = sum_list xs"
  shows "total_expenses (update_user_profile p ed f now) = length (xs @ [get_default (ed_amount ed) 0])
         \<and> avg_amount (update_user_profile p ed f now) = np_mean (xs @ [get_default (ed_amount ed) 0])"
  using assms by (simp add: update_user_profile_def Let_def np_mean_def)

lemma update_group_profile_avg:
  "avg_expense_amount (update_group_profile g ed f) = (avg_expense_amount g + get_default (ed_amount ed) 0) / 2"
  by (simp add: update_group_profile_def Let_def)

text \<open>
  Claim C9. The user profile's average follows the incremental mean (\<open>update_user_profile_mean\<close>);
  the group profile's does not: \<open>GroupProfile\<close> keeps no count, the update reads
  \<open>getattr(group_profile, 'total_expenses', 1)\<close> and so halves the sum of the stored average
  and the new amount (\<open>update_group_profile_avg\<close>). After one recorded expense of 100 the user's
  average is 100 and the group's is 50.
\<close>

theorem group_average_is_not_the_mean:
  "map_option avg_amount
     (user_profiles (update_profiles created_profiles (simple_expense ''u1'' 100 ''food'') False 0) ''u1'') = Some 100
   \<and> map_option avg_expense_amount
     (group_profiles (update_profiles created_profiles (simple_expense ''u1'' 100 ''food'') False 0) ''g1'') = Some 50"
  by (simp add: update_profiles_def created_profiles_def simple_expense_def get_default_def Let_def
      update_user_profile_def update_group_profile_def new_UserProfile_def new_GroupProfile_def)

section \<open>Notifications: facts\<close>

lemma send_channel_count: "n \<le> snd (send_channel cfg tr channel clock n)"
  by (cases channel) simp_all

lemma send_notifications_count:
  "n \<le> snd (send_notifications cfg tr alert rule chs clock n history)"
proof (induction chs arbitrary: n history)
  case Nil
  then show ?case by simp
next
  case (Cons channel chs)
  let ?n1 = "snd (send_channel cfg tr channel clock n)"
  let ?e = "\<lparr>n_alert_id = a_id alert, n_channel = channel, n_timestamp = clock ?n1, n_rule = nr_name rule,
             n_status = (if fst (send_channel cfg tr channel clock n) then ''sent'' else ''failed'')\<rparr>"
  have step: "snd (send_notifications cfg tr alert rule (channel # chs) clock n history)
        = snd (send_notifications cfg tr alert rule chs clock (?n1 + 1) (history @ [?e]))"
    by (simp add: split_beta)
  have "n \<le> ?n1" by (rule send_channel_count)
  also have "?n1 \<le> ?n1 + 1" by simp
  also have "?n1 + 1 \<le> snd (send_notifications cfg tr alert rule chs clock (?n1 + 1) (history @ [?e]))"
    by (rule Cons.IH)
  finally show ?case by (simp only: step)
qed

lemma send_notifications_history:
  "\<exists>sent. fst (send_notifications cfg tr alert rule chs clock n history) = history @ sent
          \<and> map n_channel sent = chs
          \<and> list_all (\<lambda>e. n_alert_id e = a_id alert \<and> n_rule e = nr_name rule) sent"
proof (induction chs arbitrary: n history)
  case Nil
  then show ?case by simp
next
  case (Cons channel chs)
  let ?e = "\<lparr>n_alert_id = a_id alert, n_channel = channel,
             n_timestamp = clock (snd (send_channel cfg tr channel clock n)), n_rule = nr_name rule,
             n_status = (if fst (send_channel cfg tr channel clock n) then ''sent'' else ''failed'')\<rparr>"
  from Cons.IH [of "snd (send_channel cfg tr channel clock n) + 1" "history @ [?e]"]
  obtain sent where sent:
    "fst (send_notifications cfg tr alert rule chs clock (snd (send_channel cfg tr channel clock n) + 1)
            (history @ [?e])) = (history @ [?e]) @ sent"
    "map n_channel sent = chs"
    "list_all (\<lambda>e. n_alert_id e = a_id alert \<and> n_rule e = nr_name rule) sent"
    by blast
  show ?case
  proof (intro exI [of _ "?e # sent"] conjI)
    show "fst (send_notifications cfg tr alert rule (channel # chs) clock n history) = history @ ?e # sent"
      using sent(1) by (simp add: split_beta)
    show "map n_channel (?e # sent) = channel # chs"
      using sent(2) by simp
    show "list_all (\<lambda>e. n_alert_id e = a_id alert \<and> n_rule e = nr_name rule) (?e # sent)"
      using sent(3) by simp
  qed
qed

lemma gate_open_iff:
  "gate_open rule now \<longleftrightarrow>
     last_triggered rule = None
     \<or> (\<exists>lt. last_triggered rule = Some lt \<and> now - lt > minutes (cooldown_minutes rule))"
  by (simp add: gate_open_def split: option.splits)

lemma should_notify_gate: "fst (should_notify rule clock n) = gate_open rule (clock n)"
  by (simp add: should_notify_def gate_open_def split: option.splits)

lemma should_notify_count: "n \<le> snd (should_notify rule clock n)"
  by (simp add: should_notify_def split: option.splits)

lemma process_rule_quiet:
  assumes "process_rule cfg tr alert clock rule (n, history) = (rule', n', history')"
    and "\<not> (enabled rule \<and> matches_rule alert rule \<and> gate_open rule (clock n))"
  shows "rule' = rule \<and> history' = history"
  using assms
  by (auto simp: process_rule_def Let_def split_beta should_notify_gate split: if_splits)

lemma process_rule_fires:
  assumes "process_rule cfg tr alert clock rule (n, history) = (rule', n', history')"
    and "enabled rule" and "matches_rule alert rule" and "gate_open rule (clock n)"
  shows "(\<exists>k\<ge>n. n' = k + 1 \<and> rule' = rule\<lparr>last_triggered := Some (clock k)\<rparr>)
         \<and> (\<exists>sent. history' = history @ sent \<and> map n_channel sent = channels rule
                    \<and> list_all (\<lambda>e. n_alert_id e = a_id alert \<and> n_rule e = nr_name rule) sent)"
proof -
  let ?n1 = "snd (should_notify rule clock n)"
  let ?s = "send_notifications cfg tr alert rule (channels rule) clock ?n1 history"
  from assms have r: "rule' = rule\<lparr>last_triggered := Some (clock (snd ?s))\<rparr>" and h: "history' = fst ?s"
    and c: "n' = snd ?s + 1"
    by (simp_all add: process_rule_def Let_def split_beta should_notify_gate)
  have "n \<le> snd ?s"
    using should_notify_count [of n rule clock]
      send_notifications_count [of ?n1 cfg tr alert rule "channels rule" clock history]
    by simp
  with r c have "\<exists>k\<ge>n. n' = k + 1 \<and> rule' = rule\<lparr>last_triggered := Some (clock k)\<rparr>" by blast
  moreover have "\<exists>sent. history' = history @ sent \<and> map n_channel sent = channels rule
                    \<and> list_all (\<lambda>e. n_alert_id e = a_id alert \<and> n_rule e = nr_name rule) sent"
    unfolding h by (rule send_notifications_history)
  ultimately show ?thesis by blast
qed

lemma high_step:
  "process_rule default_config reliable_transport (high_alert ''u1'' ''g1'') second_clock high_risk_rule (0, []) =
     (high_risk_rule\<lparr>last_triggered := Some 2000000\<rparr>, 3,
      [\<lparr>n_alert_id = ''overall_realtime_risk_u1'', n_channel = WEBHOOK, n_timestamp = 1000000,
        n_rule = ''High Risk Transaction'', n_status = ''sent''\<rparr>])"
  by (simp add: process_rule_def high_risk_rule_def high_alert_def matches_rule_def get_default_def
      should_notify_def default_config_def reliable_transport_def second_clock_def Let_def)

text \<open>
  Claim C7. One round of the loop of \<open>_process_alert\<close> on a rule changes the rule or the
  notification history only if the rule is enabled, the alert matches, and the rule never fired
  or the clock reads more than the cooldown after \<open>last_triggered\<close>. When those hold, the round
  appends one history entry per channel of the rule, for this alert and this rule, and writes
  the last reading of the clock it makes into \<open>last_triggered\<close> of the rule itself; the loop
  over a single rule is that round. Once the rule holds
  \<open>last_triggered = T\<close>, a round for any alert (about whatever user and group) that starts at a
  reading of at most \<open>T\<close> plus the cooldown sends nothing and leaves the rule as it is, and a
  round for a matching alert at a later reading sends and writes \<open>last_triggered\<close> again.
\<close>

theorem notification_cooldown:
  assumes "process_rule cfg tr alert clock rule (n, history) = (rule', n', history')"
  shows "((rule' \<noteq> rule \<or> history' \<noteq> history) \<longrightarrow>
            enabled rule \<and> matches_rule alert rule
            \<and> (last_triggered rule = None
                \<or> (\<exists>lt. last_triggered rule = Some lt \<and> clock n - lt > minutes (cooldown_minutes rule))))
         \<and> (enabled rule \<and> matches_rule alert rule
             \<and> (last_triggered rule = None
                 \<or> (\<exists>lt. last_triggered rule = Some lt \<and> clock n - lt > minutes (cooldown_minutes rule))) \<longrightarrow>
               (\<exists>k\<ge>n. n' = k + 1 \<and> rule' = rule\<lparr>last_triggered := Some (clock k)\<rparr>)
               \<and> (\<exists>sent. history' = history @ sent \<and> map n_channel sent = channels rule
                          \<and> list_all (\<lambda>e. n_alert_id e = a_id alert \<and> n_rule e = nr_name rule) sent))
         \<and> process_alert cfg tr alert clock [rule] (n, history) = ([rule'], n', history')
         \<and> (\<forall>T cfg2 tr2 alert2 clock2 m h rule2 m2 h2.
               last_triggered rule' = Some T
               \<and> process_rule cfg2 tr2 alert2 clock2 rule' (m, h) = (rule2, m2, h2)
               \<and> clock2 m - T \<le> minutes (cooldown_minutes rule') \<longrightarrow>
                 rule2 = rule' \<and> h2 = h)
         \<and> (\<forall>T cfg2 tr2 alert2 clock2 m h rule2 m2 h2.
               last_triggered rule' = Some T
               \<and> process_rule cfg2 tr2 alert2 clock2 rule' (m, h) = (rule2, m2, h2)
               \<and> clock2 m - T > minutes (cooldown_minutes rule')
               \<and> enabled rule' \<and> matches_rule alert2 rule' \<longrightarrow>
                 (\<exists>k\<ge>m. rule2 = rule'\<lparr>last_triggered := Some (clock2 k)\<rparr>)
                 \<and> (\<exists>sent. h2 = h @ sent \<and> map n_channel sent = channels rule'))"
proof -
  have only_if: "(rule' \<noteq> rule \<or> history' \<noteq> history) \<longrightarrow>
            enabled rule \<and> matches_rule alert rule
            \<and> (last_triggered rule = None
                \<or> (\<exists>lt. last_triggered rule = Some lt \<and> clock n - lt > minutes (cooldown_minutes rule)))"
  proof
    assume "rule' \<noteq> rule \<or> history' \<noteq> history"
    with process_rule_quiet [OF assms]
    have "enabled rule \<and> matches_rule alert rule \<and> gate_open rule (clock n)"
      by blast
    then show "enabled rule \<and> matches_rule alert rule
            \<and> (last_triggered rule = None
                \<or> (\<exists>lt. last_triggered rule = Some lt \<and> clock n - lt > minutes (cooldown_minutes rule)))"
      by (simp add: gate_open_iff)
  qed
  have if_open: "enabled rule \<and> matches_rule alert rule
             \<and> (last_triggered rule = None
                 \<or> (\<exists>lt. last_triggered rule = Some lt \<and> clock n - lt > minutes (cooldown_minutes rule))) \<longrightarrow>
               (\<exists>k\<ge>n. n' = k + 1 \<and> rule' = rule\<lparr>last_triggered := Some (clock k)\<rparr>)
               \<and> (\<exists>sent. history' = history @ sent \<and> map n_channel sent = channels rule
                          \<and> list_all (\<lambda>e. n_alert_id e = a_id alert \<and> n_rule e = nr_name rule) sent)"
  proof
    assume "enabled rule \<and> matches_rule alert rule
             \<and> (last_triggered rule = None
                 \<or> (\<exists>lt. last_triggered rule = Some lt \<and> clock n - lt > minutes (cooldown_minutes rule)))"
    then have g: "enabled rule" "matches_rule alert rule" "gate_open rule (clock n)"
      by (simp_all add: gate_open_iff)
    show "(\<exists>k\<ge>n. n' = k + 1 \<and> rule' = rule\<lparr>last_triggered := Some (clock k)\<rparr>)
               \<and> (\<exists>sent. history' = history @ sent \<and> map n_channel sent = channels rule
                          \<and> list_all (\<lambda>e. n_alert_id e = a_id alert \<and> n_rule e = nr_name rule) sent)"
      using assms g by (rule process_rule_fires)
  qed
  have quiet: "rule2 = rule' \<and> h2 = h"
    if "last_triggered rule' = Some T \<and> process_rule cfg2 tr2 alert2 clock2 rule' (m, h) = (rule2, m2, h2)
        \<and> clock2 m - T \<le> minutes (cooldown_minutes rule')"
    for T cfg2 tr2 alert2 clock2 m h rule2 m2 h2
  proof -
    from that have "\<not> gate_open rule' (clock2 m)"
      by (simp add: gate_open_def)
    then have "\<not> (enabled rule' \<and> matches_rule alert2 rule' \<and> gate_open rule' (clock2 m))"
      by simp
    moreover from that have "process_rule cfg2 tr2 alert2 clock2 rule' (m, h) = (rule2, m2, h2)"
      by simp
    ultimately show ?thesis by (rule process_rule_quiet [rotated])
  qed
  have again: "(\<exists>k\<ge>m. rule2 = rule'\<lparr>last_triggered := Some (clock2 k)\<rparr>)
                 \<and> (\<exists>sent. h2 = h @ sent \<and> map n_channel sent = channels rule')"
    if "last_triggered rule' = Some T \<and> process_rule cfg2 tr2 alert2 clock2 rule' (m, h) = (rule2, m2, h2)
        \<and> clock2 m - T > minutes (cooldown_minutes rule') \<and> enabled rule' \<and> matches_rule alert2 rule'"
    for T cfg2 tr2 alert2 clock2 m h rule2 m2 h2
  proof -
    from that have p: "process_rule cfg2 tr2 alert2 clock2 rule' (m, h) = (rule2, m2, h2)"
      and e: "enabled rule'" and mt: "matches_rule alert2 rule'"
      by simp_all
    from that have g: "gate_open rule' (clock2 m)"
      by (simp add: gate_open_def)
    from process_rule_fires [OF p e mt g] show ?thesis by blast
  qed
  have loop: "process_alert cfg tr alert clock [rule] (n, history) = ([rule'], n', history')"
    using assms by simp
  from only_if if_open loop quiet again show ?thesis by blast
qed

theorem notification_cooldown_witness:
  "high_risk_rule \<in> set default_rules
   \<and> enabled high_risk_rule \<and> matches_rule (high_alert ''u1'' ''g1'') high_risk_rule
   \<and> last_triggered high_risk_rule = None
   \<and> process_rule default_config reliable_transport (high_alert ''u1'' ''g1'') second_clock high_risk_rule (0, []) =
       (high_risk_rule\<lparr>last_triggered := Some 2000000\<rparr>, 3,
        [\<lparr>n_alert_id = ''overall_realtime_risk_u1'', n_channel = WEBHOOK, n_timestamp = 1000000,
          n_rule = ''High Risk Transaction'', n_status = ''sent''\<rparr>])
   \<and> high_risk_rule\<lparr>last_triggered := Some 2000000\<rparr> \<noteq> high_risk_rule
   \<and> second_clock 1802 - 2000000 \<le> minutes (cooldown_minutes (high_risk_rule\<lparr>last_triggered := Some 2000000\<rparr>))
   \<and> fst (process_rule default_config reliable_transport (high_alert ''u2'' ''g2'') second_clock
             (high_risk_rule\<lparr>last_triggered := Some 2000000\<rparr>) (1802, [])) =
       high_risk_rule\<lparr>last_triggered := Some 2000000\<rparr>
   \<and> snd (snd (process_rule default_config reliable_transport (high_alert ''u2'' ''g2'') second_clock
             (high_risk_rule\<lparr>last_triggered := Some 2000000\<rparr>) (1802, []))) = []
   \<and> second_clock 1803 - 2000000 > minutes (cooldown_minutes (high_risk_rule\<lparr>last_triggered := Some 2000000\<rparr>))
   \<and> matches_rule (high_alert ''u2'' ''g2'') (high_risk_rule\<lparr>last_triggered := Some 2000000\<rparr>)
   \<and> map n_channel (snd (snd (process_rule default_config reliable_transport (high_alert ''u2'' ''g2'') second_clock
             (high_risk_rule\<lparr>last_triggered := Some 2000000\<rparr>) (1803, [])))) = [WEBHOOK]"
proof -
  let ?r1 = "high_risk_rule\<lparr>last_triggered := Some 2000000\<rparr>"
  let ?quiet = "process_rule default_config reliable_transport (high_alert ''u2'' ''g2'') second_clock ?r1 (1802, [])"
  let ?again = "process_rule default_config reliable_transport (high_alert ''u2'' ''g2'') second_clock ?r1 (1803, [])"
  note round = notification_cooldown [OF high_step]
  have member: "high_risk_rule \<in> set default_rules"
    by (simp add: default_rules_def high_risk_rule_def)
  have open1: "enabled high_risk_rule" "matches_rule (high_alert ''u1'' ''g1'') high_risk_rule"
    "last_triggered high_risk_rule = None"
    by (simp_all add: high_alert_def high_risk_rule_def matches_rule_def get_default_def)
  have changed: "?r1 \<noteq> high_risk_rule"
    by (simp add: high_risk_rule_def)
  have lt: "last_triggered ?r1 = Some 2000000" by simp
  have closed: "second_clock 1802 - 2000000 \<le> minutes (cooldown_minutes ?r1)"
    and passed: "second_clock 1803 - 2000000 > minutes (cooldown_minutes ?r1)"
    by (simp_all add: second_clock_def minutes_def high_risk_rule_def)
  have m2: "enabled ?r1" "matches_rule (high_alert ''u2'' ''g2'') ?r1"
    by (simp_all add: high_alert_def high_risk_rule_def matches_rule_def get_default_def)
  have q: "?quiet = (fst ?quiet, fst (snd ?quiet), snd (snd ?quiet))" by simp
  have g: "?again = (fst ?again, fst (snd ?again), snd (snd ?again))" by simp
  from round lt q closed have quiet: "fst ?quiet = ?r1 \<and> snd (snd ?quiet) = []"
    by blast
  from round lt g passed m2 have "\<exists>sent. snd (snd ?again) = [] @ sent \<and> map n_channel sent = channels ?r1"
    by blast
  then have again: "map n_channel (snd (snd ?again)) = [WEBHOOK]"
    by (auto simp: high_risk_rule_def)
  from member open1 high_step changed closed quiet passed m2(2) again show ?thesis
    by (intro conjI) simp_all
qed


end
